theory Spec2Isabelle
  imports Complex_Main "HOL-Library.Word" "HOL-Library.Signed_Division" "HOL-Library.Multiset"
begin

chapter \<open>The distributed raycaster: worker engine, worker service, master gateway\<close>

text \<open>
  Conventions of the embedding.
  \<^item> A C++ \<open>double\<close> is a \<^typ>\<open>real\<close>: arithmetic is exact, rounding, infinities and NaN
    are outside the model. \<open>cos\<close> and \<open>sin\<close> are the functions of the reals.
  \<^item> A plain C++ \<open>int\<close> is an \<^typ>\<open>int\<close>: its overflow is undefined in C++ and outside
    the model; \<open>/\<close> and \<open>%\<close> on \<open>int\<close> truncate towards zero (\<open>sdiv\<close>, \<open>smod\<close>).
  \<^item> A \<open>std::atomic<int>\<close> is a \<^typ>\<open>32 word\<close> read with \<open>sint\<close>: its increments and
    decrements wrap around in two's complement, as C++ defines them. \<open>uint8_t\<close> is an
    \<^typ>\<open>8 word\<close>, \<open>size_t\<close> a \<^typ>\<open>64 word\<close>, both with wrap-around.
  \<^item> A read of a \<open>std::vector\<close> or of a repeated protobuf field past its end is undefined
    in C++ and is the value \<open>Inl OutOfRangeRead\<close> here; an exception is \<open>Inl\<close> of the
    exception. Failure to allocate memory is outside the model.
  \<^item> Calls are modelled one at a time: a call runs to its end before the next one starts.
\<close>

section \<open>Numeric conversions\<close>

type_synonym uint8_t = "8 word"
type_synonym size_t = "64 word"
type_synonym atomic_int = "32 word"

definition INT_MIN :: int where
  "INT_MIN = - (2 ^ 31)"

text \<open>
  \<open>(int)d\<close> and \<open>static_cast<int>(d)\<close>: truncation towards zero. Where the truncated value
  does not fit an \<open>int\<close> the C++ conversion is undefined; the model returns what the
  x86-64 conversion instruction returns there, \<open>INT_MIN\<close>.
\<close>

definition double_to_int :: "real \<Rightarrow> int" where
  "double_to_int d =
     (if - (2 ^ 31) - 1 < d \<and> d < 2 ^ 31
      then (if 0 \<le> d then \<lfloor>d\<rfloor> else \<lceil>d\<rceil>)
      else INT_MIN)"

text \<open>
  \<open>static_cast<uint8_t>(d)\<close>: the truncated value when it lies in \<open>0..255\<close>. Outside that
  range the C++ conversion is undefined; the model takes the low byte of the \<open>int\<close>
  conversion, which is what the x86-64 build computes.
\<close>

definition double_to_uint8 :: "real \<Rightarrow> uint8_t" where
  "double_to_uint8 d = word_of_int (double_to_int d)"

text \<open>A quotient of doubles converted to \<open>int\<close>; a zero divisor gives an infinity, whose
  conversion is out of range.\<close>

definition quotient_to_int :: "real \<Rightarrow> real \<Rightarrow> int" where
  "quotient_to_int a b = (if b = 0 then INT_MIN else double_to_int (a / b))"

text \<open>Integer division of C++ truncates towards zero.\<close>

definition c_div :: "int \<Rightarrow> int \<Rightarrow> int" where
  "c_div a b = a sdiv b"

section \<open>worker\_types.h\<close>

text \<open>Single-letter and clashing field names carry the name of their struct.\<close>

record InternalPlayer =
  player_x :: real
  player_y :: real
  player_angle :: real
  player_pitch :: real
  player_id :: string
  player_timestamp :: nat

record InternalRaycastResult =
  column :: int
  distance :: real
  wallType :: int
  wallX :: real
  wallTop :: int
  wallBottom :: int
  col_r :: uint8_t
  col_g :: uint8_t
  col_b :: uint8_t

record InternalRenderRequest =
  requestId :: string
  playerId :: string
  player :: InternalPlayer
  screenWidth :: int
  screenHeight :: int
  fov :: real
  startColumn :: int
  endColumn :: int
  map_cells :: "int list list"
  mapWidth :: int
  mapHeight :: int
  timestamp :: nat

datatype error = OutOfRangeRead | LengthError

section \<open>raycast\_engine.h, raycast\_engine.cpp\<close>

definition MAX_DISTANCE :: real where
  "MAX_DISTANCE = 800"

definition SCREEN_HEIGHT :: int where
  "SCREEN_HEIGHT = 768"

subsection \<open>castRay\<close>

text \<open>\<open>map[mapY][mapX]\<close> on a \<open>std::vector<std::vector<int>>\<close>, for indices the caller has
  already checked to be non-negative.\<close>

definition cell :: "int list list \<Rightarrow> int \<Rightarrow> int \<Rightarrow> error + int" where
  "cell m my mx =
     (if nat my < length m \<and> nat mx < length (m ! nat my)
      then Inr (m ! nat my ! nat mx)
      else Inl OutOfRangeRead)"

definition deltaDist :: "real \<Rightarrow> real" where
  "deltaDist rayDir = (if rayDir = 0 then 10 ^ 30 else \<bar>1 / rayDir\<bar>)"

definition step :: "real \<Rightarrow> int" where
  "step rayDir = (if rayDir < 0 then - 1 else 1)"

definition sideDist0 :: "real \<Rightarrow> real \<Rightarrow> int \<Rightarrow> real" where
  "sideDist0 rayDir ray mapc =
     (if rayDir < 0 then (ray - of_int mapc) * deltaDist rayDir
      else (of_int mapc + 1 - ray) * deltaDist rayDir)"

record dda =
  sideDistX :: real
  sideDistY :: real
  mapX :: int
  mapY :: int
  side :: int

text \<open>The first statement of the loop body: advance along the nearer axis.\<close>

definition advance :: "real \<Rightarrow> real \<Rightarrow> dda \<Rightarrow> dda" where
  "advance rayDirX rayDirY s =
     (if sideDistX s < sideDistY s
      then s\<lparr>sideDistX := sideDistX s + deltaDist rayDirX,
             mapX := mapX s + step rayDirX, side := 0\<rparr>
      else s\<lparr>sideDistY := sideDistY s + deltaDist rayDirY,
             mapY := mapY s + step rayDirY, side := 1\<rparr>)"

definition outside :: "int \<Rightarrow> int \<Rightarrow> dda \<Rightarrow> bool" where
  "outside w h s \<longleftrightarrow> mapX s < 0 \<or> mapX s \<ge> w \<or> mapY s < 0 \<or> mapY s \<ge> h"

text \<open>How many cells the march can still cross along one axis before it leaves the map.\<close>

definition remaining :: "real \<Rightarrow> int \<Rightarrow> int \<Rightarrow> nat" where
  "remaining rayDir bound mapc = (if rayDir < 0 then nat (mapc + 1) else nat (bound - mapc))"

text \<open>\<open>while (true) { advance; if (outside || map[mapY][mapX] == 1) break; }\<close>\<close>

function march :: "real \<Rightarrow> real \<Rightarrow> int list list \<Rightarrow> int \<Rightarrow> int \<Rightarrow> dda \<Rightarrow> error + dda" where
  "march rayDirX rayDirY m w h s =
     (if outside w h (advance rayDirX rayDirY s) then Inr (advance rayDirX rayDirY s)
      else case cell m (mapY (advance rayDirX rayDirY s)) (mapX (advance rayDirX rayDirY s)) of
             Inl e \<Rightarrow> Inl e
           | Inr v \<Rightarrow>
               if v = 1 then Inr (advance rayDirX rayDirY s)
               else march rayDirX rayDirY m w h (advance rayDirX rayDirY s))"
  by pat_completeness auto

termination march
proof (relation "measure (\<lambda>(dx, dy, m, w, h, s). remaining dx w (mapX s) + remaining dy h (mapY s))",
       goal_cases)
  case 1
  show ?case by simp
next
  case (2 dx dy m w h s v)
  then show ?case
    by (auto simp: outside_def advance_def remaining_def step_def split: if_splits)
qed

declare march.simps [simp del]

text \<open>The cell and side at which the march stopped, from the pose. \<open>side\<close> is assigned
  by the first iteration of the loop; the value it starts with here is never read.\<close>

definition castRay_hit ::
  "real \<Rightarrow> real \<Rightarrow> real \<Rightarrow> real \<Rightarrow> int list list \<Rightarrow> int \<Rightarrow> int \<Rightarrow> error + dda" where
  "castRay_hit rayAngle playerX playerY playerPitch m w h =
     (let rayDirX = cos rayAngle * cos playerPitch;
          rayDirY = sin rayAngle * cos playerPitch;
          mx = double_to_int playerX;
          my = double_to_int playerY
      in march rayDirX rayDirY m w h
           \<lparr>sideDistX = sideDist0 rayDirX playerX mx,
            sideDistY = sideDist0 rayDirY playerY my,
            mapX = mx, mapY = my, side = 0\<rparr>)"

text \<open>The three output parameters \<open>(distance, wallType, wallX)\<close>.\<close>

definition castRay ::
  "real \<Rightarrow> real \<Rightarrow> real \<Rightarrow> real \<Rightarrow> int list list \<Rightarrow> int \<Rightarrow> int \<Rightarrow> error + (real \<times> int \<times> real)" where
  "castRay rayAngle playerX playerY playerPitch m w h =
     (case castRay_hit rayAngle playerX playerY playerPitch m w h of
        Inl e \<Rightarrow> Inl e
      | Inr s \<Rightarrow>
          let rayDirX = cos rayAngle * cos playerPitch;
              rayDirY = sin rayAngle * cos playerPitch;
              d = (if side s = 0 then sideDistX s - deltaDist rayDirX
                   else sideDistY s - deltaDist rayDirY);
              wx = (if side s = 0 then playerY + d * rayDirY
                    else playerX + d * rayDirX)
          in Inr (d * cos playerPitch, (mapX s + mapY s) smod 6, wx))"

subsection \<open>calculateIntensity, getWallColor\<close>

definition calculateIntensity :: "real \<Rightarrow> uint8_t" where
  "calculateIntensity d = max (double_to_uint8 (255 * (1 - d / MAX_DISTANCE))) 50"

definition baseColors :: "(nat \<times> nat \<times> nat) list" where
  "baseColors =
     [(34, 139, 34), (105, 105, 105), (128, 128, 128),
      (139, 69, 19), (160, 82, 45), (178, 34, 34)]"

text \<open>\<open>(baseColors[wallType][k] * intensity) / 255\<close>: both operands are promoted to
  \<open>int\<close>, the quotient is stored into a \<open>uint8_t\<close>.\<close>

definition shade :: "nat \<Rightarrow> uint8_t \<Rightarrow> uint8_t" where
  "shade base intensity = of_nat ((base * unat intensity) div 255)"

definition getWallColor :: "int \<Rightarrow> uint8_t \<Rightarrow> uint8_t \<times> uint8_t \<times> uint8_t" where
  "getWallColor wt intensity =
     (if wt \<ge> 0 \<and> wt < 6
      then (case baseColors ! nat wt of
              (cr, cg, cb) \<Rightarrow> (shade cr intensity, shade cg intensity, shade cb intensity))
      else (intensity, intensity, intensity))"

subsection \<open>renderColumns\<close>

text \<open>The body of the \<open>for\<close> loop for column \<open>x\<close>. A zero \<open>screenWidth\<close> makes the angle
  an infinity or NaN in C++ and is outside the model.\<close>

definition renderColumn :: "InternalRenderRequest \<Rightarrow> int \<Rightarrow> error + InternalRaycastResult" where
  "renderColumn request x =
     (let rayAngle = player_angle (player request) - fov request / 2
                     + (of_int x * fov request / of_int (screenWidth request))
      in case castRay rayAngle (player_x (player request)) (player_y (player request))
                (player_pitch (player request))
                (map_cells request) (mapWidth request) (mapHeight request) of
           Inl e \<Rightarrow> Inl e
         | Inr (d, wt, wx) \<Rightarrow>
             let wallHeight = quotient_to_int (of_int SCREEN_HEIGHT) d;
                 wtop = c_div (SCREEN_HEIGHT - wallHeight) 2;
                 wbottom = wtop + wallHeight;
                 intensity = calculateIntensity d
             in case getWallColor wt intensity of
                  (cr, cg, cb) \<Rightarrow>
                    Inr \<lparr>column = x, distance = d, wallType = wt, wallX = wx,
                         wallTop = wtop, wallBottom = wbottom,
                         col_r = cr, col_g = cg, col_b = cb\<rparr>)"

text \<open>\<open>for (int x = ...; x < request.endColumn; x++) results.push_back(...)\<close>\<close>

function render_loop ::
  "InternalRenderRequest \<Rightarrow> int \<Rightarrow> InternalRaycastResult list \<Rightarrow> error + InternalRaycastResult list"
where
  "render_loop request x results =
     (if x < endColumn request
      then case renderColumn request x of
             Inl e \<Rightarrow> Inl e
           | Inr c \<Rightarrow> render_loop request (x + 1) (results @ [c])
      else Inr results)"
  by pat_completeness auto

termination render_loop
  by (relation "measure (\<lambda>(request, x, results). nat (endColumn request - x))") auto

declare render_loop.simps [simp del]

text \<open>\<open>results.reserve(n)\<close> takes a \<open>size_t\<close>: a negative \<open>int\<close> converts to a value above
  \<open>max_size()\<close> and \<open>reserve\<close> throws \<open>std::length_error\<close>. Failure to allocate is outside
  the model.\<close>

definition renderColumns :: "InternalRenderRequest \<Rightarrow> error + InternalRaycastResult list" where
  "renderColumns request =
     (if endColumn request - startColumn request < 0 then Inl LengthError
      else render_loop request (startColumn request) [])"

text \<open>A map that has the rows and columns its declared dimensions promise.\<close>

definition map_ok :: "int list list \<Rightarrow> int \<Rightarrow> int \<Rightarrow> bool" where
  "map_ok m w h \<longleftrightarrow>
     nat h \<le> length m \<and> list_all (\<lambda>row. nat w \<le> length row) (take (nat h) m)"

subsection \<open>Sample inputs\<close>

definition walled_room :: "int list list" where
  "walled_room = [[1, 1, 1], [1, 0, 1], [1, 1, 1]]"

definition demo_request :: InternalRenderRequest where
  "demo_request =
     \<lparr>requestId = ''r1'', playerId = ''p1'',
      player = \<lparr>player_x = 3/2, player_y = 3/2, player_angle = 0, player_pitch = 0,
                player_id = ''p1'', player_timestamp = 0\<rparr>,
      screenWidth = 8, screenHeight = 768, fov = 1, startColumn = 0, endColumn = 8,
      map_cells = walled_room, mapWidth = 3, mapHeight = 3,
      timestamp = 0\<rparr>"

text \<open>A job in an open corridor 1001 cells long, and a job in a single open cell looking
  towards negative x; both render one column straight ahead.\<close>

definition corridor_request :: InternalRenderRequest where
  "corridor_request =
     \<lparr>requestId = ''r3'', playerId = ''p1'',
      player = \<lparr>player_x = 1/2, player_y = 1/2, player_angle = 0, player_pitch = 0,
                player_id = ''p1'', player_timestamp = 0\<rparr>,
      screenWidth = 1, screenHeight = 768, fov = 0, startColumn = 0, endColumn = 1,
      map_cells = [replicate 1001 0], mapWidth = 1001, mapHeight = 1,
      timestamp = 0\<rparr>"

definition west_exit_request :: InternalRenderRequest where
  "west_exit_request =
     \<lparr>requestId = ''r4'', playerId = ''p1'',
      player = \<lparr>player_x = 1/2, player_y = 1/2, player_angle = pi, player_pitch = 0,
                player_id = ''p1'', player_timestamp = 0\<rparr>,
      screenWidth = 1, screenHeight = 768, fov = 0, startColumn = 0, endColumn = 1,
      map_cells = [[0]], mapWidth = 1, mapHeight = 1,
      timestamp = 0\<rparr>"

section \<open>gRPC and the protobuf messages\<close>

text \<open>
  The \<open>.proto\<close> files are not part of the sources; the messages are modelled from their
  accessors in the code. Both packages declare \<open>Player\<close> and the per-column result with
  the same fields, and share one record each here. Where two messages have a field of the
  same name, the later record's field carries a prefix.
\<close>

datatype StatusCode = OK | UNAVAILABLE | INTERNAL | DEADLINE_EXCEEDED | UNKNOWN

record Status =
  status_code :: StatusCode
  status_message :: string

definition Status_OK :: Status where
  "Status_OK = \<lparr>status_code = OK, status_message = ''''\<rparr>"

definition ok :: "Status \<Rightarrow> bool" where
  "ok st \<longleftrightarrow> status_code st = OK"

record Player =
  pl_x :: real
  pl_y :: real
  pl_angle :: real
  pl_pitch :: real
  pl_id :: string
  pl_timestamp :: nat

record RaycastResult =
  rs_column :: int
  rs_distance :: real
  wall_type :: int
  wall_x :: real
  wall_top :: int
  wall_bottom :: int
  rs_r :: int
  rs_g :: int
  rs_b :: int

record RenderRequest =
  request_id :: string
  player_id :: string
  rq_player :: Player
  screen_width :: int
  screen_height :: int
  rq_fov :: real
  start_column :: int
  end_column :: int
  rq_map :: "int list"
  map_width :: int
  map_height :: int
  rq_timestamp :: nat

record RenderResponse =
  rp_request_id :: string
  rp_player_id :: string
  worker_id :: int
  rp_timestamp :: nat
  processing_time_ms :: int
  results :: "RaycastResult list"

record WorkerStatus =
  ws_worker_id :: int
  ws_status :: string
  active_jobs :: int
  total_jobs_processed :: int
  average_processing_time_ms :: real
  last_heartbeat :: nat

section \<open>worker.cpp\<close>

record InternalWorkerStatus =
  workerId :: int
  status :: string
  activeJobs :: atomic_int
  totalJobsProcessed :: atomic_int
  averageProcessingTimeMs :: real
  lastHeartbeat :: nat

text \<open>A data member \<open>name_\<close> of a C++ class is the field \<open>m_name\<close>: an Isabelle name cannot
  end in an underscore.\<close>

record RaycastWorkerServiceImpl =
  m_workerId :: int
  m_status :: InternalWorkerStatus
  m_activeJobs :: atomic_int
  m_totalJobsProcessed :: atomic_int
  m_totalProcessingTime :: real

text \<open>The constructor; \<open>now\<close> is the system clock in milliseconds.\<close>

definition new_RaycastWorkerServiceImpl :: "int \<Rightarrow> nat \<Rightarrow> RaycastWorkerServiceImpl" where
  "new_RaycastWorkerServiceImpl wid now =
     \<lparr>m_workerId = wid,
      m_status = \<lparr>workerId = wid, status = ''idle'', activeJobs = 0, totalJobsProcessed = 0,
                 averageProcessingTimeMs = 0, lastHeartbeat = now\<rparr>,
      m_activeJobs = 0, m_totalJobsProcessed = 0, m_totalProcessingTime = 0\<rparr>"

text \<open>The readings of the clocks during one call of \<open>ProcessRenderRequest\<close>, in
  milliseconds: the high-resolution clock on entry and after rendering, the system clock
  for the response's timestamp and for the heartbeat.\<close>

record worker_clock =
  startTime :: int
  endTime :: int
  responseTime :: nat
  heartbeatTime :: nat

text \<open>\<open>request->map(i)\<close> for each index of a list, in order.\<close>

fun read_map :: "int list \<Rightarrow> int list \<Rightarrow> error + int list" where
  "read_map flat [] = Inr []"
| "read_map flat (i # is) =
     (if 0 \<le> i \<and> nat i < length flat
      then case read_map flat is of Inl e \<Rightarrow> Inl e | Inr vs \<Rightarrow> Inr (flat ! nat i # vs)
      else Inl OutOfRangeRead)"

text \<open>The two nested loops that rebuild the rows: row \<open>y\<close> reads the indices
  \<open>y * map_width + x\<close> for \<open>x = 0, ..., map_width - 1\<close>.\<close>

fun read_rows :: "int list \<Rightarrow> int \<Rightarrow> int list \<Rightarrow> error + int list list" where
  "read_rows flat w [] = Inr []"
| "read_rows flat w (y # ys) =
     (case read_map flat (map (\<lambda>x. y * w + x) [0..w - 1]) of
        Inl e \<Rightarrow> Inl e
      | Inr row \<Rightarrow>
          (case read_rows flat w ys of Inl e \<Rightarrow> Inl e | Inr rows \<Rightarrow> Inr (row # rows)))"

text \<open>The conversion to the internal request. The player's \<open>id\<close> and the two timestamps
  are not assigned by the source and never read; they are empty and 0 here.\<close>

definition to_internal :: "RenderRequest \<Rightarrow> error + InternalRenderRequest" where
  "to_internal request =
     (case read_rows (rq_map request) (map_width request) [0..map_height request - 1] of
        Inl e \<Rightarrow> Inl e
      | Inr rows \<Rightarrow>
          Inr \<lparr>requestId = request_id request, playerId = player_id request,
               player = \<lparr>player_x = pl_x (rq_player request), player_y = pl_y (rq_player request),
                         player_angle = pl_angle (rq_player request),
                         player_pitch = pl_pitch (rq_player request),
                         player_id = '''', player_timestamp = 0\<rparr>,
               screenWidth = screen_width request, screenHeight = screen_height request,
               fov = rq_fov request,
               startColumn = start_column request, endColumn = end_column request,
               map_cells = rows, mapWidth = map_width request, mapHeight = map_height request,
               timestamp = 0\<rparr>)"

definition to_proto :: "InternalRaycastResult \<Rightarrow> RaycastResult" where
  "to_proto c =
     \<lparr>rs_column = column c, rs_distance = distance c, wall_type = wallType c,
      wall_x = wallX c, wall_top = wallTop c, wall_bottom = wallBottom c,
      rs_r = uint (col_r c), rs_g = uint (col_g c), rs_b = uint (col_b c)\<rparr>"

text \<open>
  \<open>ProcessRenderRequest\<close>. The counter is incremented and the status set to busy before
  the \<open>try\<close>; the \<open>catch\<close> returns at once; the decrement follows the \<open>try\<close> block.
  The only exception of the model is the \<open>std::length_error\<close> of \<open>renderColumns\<close>.
  The two counters are \<open>std::atomic<int>\<close> and wrap around; a job count of 0 after the
  increment (the \<open>2^32\<close>-th job) makes the average an infinity or NaN in C++ and is
  outside the model.
\<close>

definition ProcessRenderRequest ::
  "worker_clock \<Rightarrow> RaycastWorkerServiceImpl \<Rightarrow> RenderRequest \<Rightarrow> RenderResponse
     \<Rightarrow> error + (RaycastWorkerServiceImpl \<times> Status \<times> RenderResponse)" where
  "ProcessRenderRequest clk w request response =
     (let w1 = w\<lparr>m_activeJobs := m_activeJobs w + 1\<rparr>;
          w2 = w1\<lparr>m_status := (m_status w1)\<lparr>activeJobs := m_activeJobs w1, status := ''busy''\<rparr>\<rparr>
      in case to_internal request of
           Inl e \<Rightarrow> Inl e
         | Inr internalRequest \<Rightarrow>
             (case renderColumns internalRequest of
                Inl LengthError \<Rightarrow>
                  Inr (w2, \<lparr>status_code = INTERNAL,
                             status_message = ''Internal processing error''\<rparr>, response)
              | Inl OutOfRangeRead \<Rightarrow> Inl OutOfRangeRead
              | Inr rs \<Rightarrow>
                  let processingTime = endTime clk - startTime clk;
                      response' = response\<lparr>results := results response @ map to_proto rs,
                                    rp_request_id := requestId internalRequest,
                                    rp_player_id := playerId internalRequest,
                                    worker_id := m_workerId w2,
                                    rp_timestamp := responseTime clk,
                                    processing_time_ms := processingTime\<rparr>;
                      w3 = w2\<lparr>m_totalJobsProcessed := m_totalJobsProcessed w2 + 1\<rparr>;
                      w4 = w3\<lparr>m_totalProcessingTime :=
                                 m_totalProcessingTime w3 + of_int processingTime\<rparr>;
                      w5 = w4\<lparr>m_status := (m_status w4)
                                 \<lparr>totalJobsProcessed := m_totalJobsProcessed w4,
                                  averageProcessingTimeMs :=
                                    m_totalProcessingTime w4 / of_int (sint (m_totalJobsProcessed w4))\<rparr>\<rparr>;
                      w6 = w5\<lparr>m_activeJobs := m_activeJobs w5 - 1\<rparr>;
                      w7 = w6\<lparr>m_status := (m_status w6)
                                 \<lparr>activeJobs := m_activeJobs w6,
                                  status := (if sint (m_activeJobs w6) > 0 then ''busy'' else ''idle''),
                                  lastHeartbeat := heartbeatTime clk\<rparr>\<rparr>
                  in Inr (w7, Status_OK, response')))"


text \<open>A request whose column range is reversed, and an empty response.\<close>

definition reversed_request :: RenderRequest where
  "reversed_request =
     \<lparr>request_id = ''r2'', player_id = ''p1'',
      rq_player = \<lparr>pl_x = 3/2, pl_y = 3/2, pl_angle = 0, pl_pitch = 0, pl_id = ''p1'',
                   pl_timestamp = 0\<rparr>,
      screen_width = 8, screen_height = 768, rq_fov = 1, start_column = 5, end_column = 2,
      rq_map = [1, 1, 1, 1, 0, 1, 1, 1, 1], map_width = 3, map_height = 3,
      rq_timestamp = 0\<rparr>"

definition empty_response :: RenderResponse where
  "empty_response =
     \<lparr>rp_request_id = '''', rp_player_id = '''', worker_id = 0, rp_timestamp = 0,
      processing_time_ms = 0, results = []\<rparr>"

definition empty_status :: WorkerStatus where
  "empty_status =
     \<lparr>ws_worker_id = 0, ws_status = '''', active_jobs = 0, total_jobs_processed = 0,
      average_processing_time_ms = 0, last_heartbeat = 0\<rparr>"

definition demo_clock :: worker_clock where
  "demo_clock = \<lparr>startTime = 100, endTime = 103, responseTime = 1000, heartbeatTime = 1001\<rparr>"

text \<open>Failed calls in a row: each is served on the worker the previous call left.\<close>

fun failed_calls :: "nat \<Rightarrow> RaycastWorkerServiceImpl \<Rightarrow> RaycastWorkerServiceImpl" where
  "failed_calls 0 w = w"
| "failed_calls (Suc n) w =
     (case ProcessRenderRequest demo_clock w reversed_request empty_response of
        Inr (w', st, response') \<Rightarrow> failed_calls n w'
      | Inl e \<Rightarrow> w)"

text \<open>A worker whose counter of active jobs has reached \<open>INT_MAX\<close>, and the same worker
  with the counter wrapped to \<open>INT_MIN\<close>.\<close>

definition saturated_worker :: RaycastWorkerServiceImpl where
  "saturated_worker =
     \<lparr>m_workerId = 1,
      m_status = \<lparr>workerId = 1, status = ''busy'', activeJobs = 2147483647,
                  totalJobsProcessed = 0, averageProcessingTimeMs = 0, lastHeartbeat = 0\<rparr>,
      m_activeJobs = 2147483647, m_totalJobsProcessed = 0, m_totalProcessingTime = 0\<rparr>"


section \<open>The environment of the master\<close>

text \<open>
  What one operation of the master reads from outside the process: the clocks (in
  milliseconds), the environment variables (as the numbers \<open>atoi\<close> makes of them, when
  set), and the outcome of each remote call, which either returns a status and a response
  or throws; the deadlines that \<open>HEALTH_CHECK_TIMEOUT_SECONDS\<close> and
  \<open>REQUEST_TIMEOUT_SECONDS\<close> set show only in these outcomes. \<open>render_rpc_ms\<close> and
  \<open>request_ms\<close> are the durations the connection and the master measure around a call,
  \<open>random_draw\<close> is the next output of the random generator. The environment is fixed
  for the duration of one operation.
\<close>

datatype 'a rpc = Replied Status 'a | Threw string

record env =
  steady_now :: int
  system_now :: nat
  HEALTH_CHECK_INTERVAL_SECONDS :: "int option"
  WORKER_PORT :: "string option"
  create_channel_throws :: "string \<Rightarrow> bool"
  status_rpc :: "string \<Rightarrow> WorkerStatus rpc"
  render_rpc :: "string \<Rightarrow> RenderRequest \<Rightarrow> RenderResponse \<Rightarrow> RenderResponse rpc"
  render_rpc_ms :: int
  request_ms :: int
  random_draw :: nat

text \<open>\<open>duration_cast<seconds>\<close> of a duration in milliseconds truncates.\<close>

definition to_seconds :: "int \<Rightarrow> int" where
  "to_seconds ms = c_div ms 1000"

section \<open>worker\_pool.h, worker\_pool.cpp: WorkerConnection\<close>

text \<open>\<open>m_stub\<close> is whether \<open>stub_\<close> holds a stub.\<close>

record WorkerConnection =
  m_endpoint :: string
  m_stub :: bool
  m_is_healthy :: bool
  m_active_jobs :: atomic_int
  m_total_jobs_processed :: atomic_int
  m_total_processing_time_ms :: real
  m_last_health_check :: int

definition PerformHealthCheck :: "env \<Rightarrow> WorkerConnection \<Rightarrow> bool \<times> WorkerConnection" where
  "PerformHealthCheck e c =
     (if \<not> m_stub c then (False, c\<lparr>m_is_healthy := False\<rparr>)
      else case status_rpc e (m_endpoint c) of
             Replied st response \<Rightarrow>
               (let healthy = ok st
                in (healthy, c\<lparr>m_is_healthy := healthy, m_last_health_check := steady_now e\<rparr>))
           | Threw what \<Rightarrow> (False, c\<lparr>m_is_healthy := False\<rparr>))"

definition Connect :: "env \<Rightarrow> WorkerConnection \<Rightarrow> bool \<times> WorkerConnection" where
  "Connect e c =
     (if create_channel_throws e (m_endpoint c) then (False, c\<lparr>m_is_healthy := False\<rparr>)
      else PerformHealthCheck e (c\<lparr>m_stub := True\<rparr>))"

text \<open>The constructor: \<open>is_healthy_\<close> starts true, the counters at 0, then \<open>Connect()\<close>.\<close>

definition new_WorkerConnection :: "env \<Rightarrow> string \<Rightarrow> WorkerConnection" where
  "new_WorkerConnection e endpoint =
     snd (Connect e
       \<lparr>m_endpoint = endpoint, m_stub = False, m_is_healthy = True, m_active_jobs = 0,
        m_total_jobs_processed = 0, m_total_processing_time_ms = 0,
        m_last_health_check = steady_now e\<rparr>)"

definition Disconnect :: "WorkerConnection \<Rightarrow> WorkerConnection" where
  "Disconnect c = c\<lparr>m_stub := False, m_is_healthy := False\<rparr>"

definition IsHealthy :: "env \<Rightarrow> WorkerConnection \<Rightarrow> bool \<times> WorkerConnection" where
  "IsHealthy e c =
     (let time_since_last_check = to_seconds (steady_now e - m_last_health_check c);
          intervalSeconds = (case HEALTH_CHECK_INTERVAL_SECONDS e of Some n \<Rightarrow> n | None \<Rightarrow> 30)
      in if time_since_last_check > intervalSeconds then PerformHealthCheck e c
         else (m_is_healthy c, c))"

definition MarkUnhealthy :: "WorkerConnection \<Rightarrow> WorkerConnection" where
  "MarkUnhealthy c = c\<lparr>m_is_healthy := False\<rparr>"

definition UpdateLastHealthCheck :: "env \<Rightarrow> WorkerConnection \<Rightarrow> WorkerConnection" where
  "UpdateLastHealthCheck e c = c\<lparr>m_last_health_check := steady_now e\<rparr>"

definition IncrementActiveJobs :: "WorkerConnection \<Rightarrow> WorkerConnection" where
  "IncrementActiveJobs c = c\<lparr>m_active_jobs := m_active_jobs c + 1\<rparr>"

definition DecrementActiveJobs :: "WorkerConnection \<Rightarrow> WorkerConnection" where
  "DecrementActiveJobs c = c\<lparr>m_active_jobs := m_active_jobs c - 1\<rparr>"

definition UpdateJobStats :: "int \<Rightarrow> WorkerConnection \<Rightarrow> WorkerConnection" where
  "UpdateJobStats processing_time c =
     c\<lparr>m_total_jobs_processed := m_total_jobs_processed c + 1,
       m_total_processing_time_ms := m_total_processing_time_ms c + of_int processing_time\<rparr>"

text \<open>\<open>GetActiveJobs()\<close> and \<open>GetTotalJobsProcessed()\<close> load the counters as \<open>int\<close>.\<close>

definition GetActiveJobs :: "WorkerConnection \<Rightarrow> int" where
  "GetActiveJobs c = sint (m_active_jobs c)"

definition GetTotalJobsProcessed :: "WorkerConnection \<Rightarrow> int" where
  "GetTotalJobsProcessed c = sint (m_total_jobs_processed c)"

definition GetAverageProcessingTimeMs :: "WorkerConnection \<Rightarrow> real" where
  "GetAverageProcessingTimeMs c =
     (if m_total_jobs_processed c = 0 then 0
      else m_total_processing_time_ms c / of_int (sint (m_total_jobs_processed c)))"

text \<open>\<open>WorkerConnection::ProcessRenderRequest\<close>, which forwards a request to the worker;
  it carries the name of its class, as the worker service has a method of the same
  name.\<close>

definition WorkerConnection_ProcessRenderRequest ::
  "env \<Rightarrow> WorkerConnection \<Rightarrow> RenderRequest \<Rightarrow> RenderResponse
     \<Rightarrow> Status \<times> RenderResponse \<times> WorkerConnection" where
  "WorkerConnection_ProcessRenderRequest e c request response =
     (if \<not> m_stub c
      then (\<lparr>status_code = UNAVAILABLE, status_message = ''Worker not connected''\<rparr>, response, c)
      else case render_rpc e (m_endpoint c) request response of
             Replied st response' \<Rightarrow>
               (let c1 = IncrementActiveJobs c;
                    c2 = UpdateJobStats (render_rpc_ms e) c1;
                    c3 = DecrementActiveJobs c2;
                    c4 = (if ok st then UpdateLastHealthCheck e c3 else MarkUnhealthy c3)
                in (st, response', c4))
           | Threw what \<Rightarrow>
               (\<lparr>status_code = INTERNAL, status_message = ''Exception: '' @ what\<rparr>, response,
                MarkUnhealthy (DecrementActiveJobs (IncrementActiveJobs c))))"

section \<open>worker\_pool.h, worker\_pool.cpp: WorkerPool\<close>

record InternalWorkerInfo =
  iw_endpoint :: string
  iw_worker_id :: int
  iw_status :: string
  iw_active_jobs :: int
  iw_total_jobs_processed :: int
  iw_average_processing_time_ms :: real
  iw_last_heartbeat :: nat

text \<open>\<open>m_discovery_interval\<close> is in seconds. A \<open>WorkerConnection*\<close> handed out by the pool
  is the position of the connection in \<open>workers_\<close>; the pointers of a snapshot are
  positions of the list they were taken from, so the reads through them are in range.\<close>

record WorkerPool =
  m_workers :: "WorkerConnection list"
  m_worker_service_name :: string
  m_worker_namespace :: string
  m_last_discovery :: int
  m_discovery_interval :: int

type_synonym worker_ptr = nat

definition new_WorkerPool :: "env \<Rightarrow> string \<Rightarrow> string \<Rightarrow> WorkerPool" where
  "new_WorkerPool e service_name namespace_name =
     \<lparr>m_workers = [], m_worker_service_name = service_name,
      m_worker_namespace = namespace_name, m_last_discovery = steady_now e,
      m_discovery_interval = 30\<rparr>"

definition GetWorkerEndpoints :: "env \<Rightarrow> WorkerPool \<Rightarrow> string list" where
  "GetWorkerEndpoints e p =
     [m_worker_service_name p @ ''.'' @ m_worker_namespace p @ ''.svc.cluster.local:''
        @ (case WORKER_PORT e of Some port \<Rightarrow> port | None \<Rightarrow> ''50051'')]"

definition ShouldRefreshWorkers :: "env \<Rightarrow> WorkerPool \<Rightarrow> bool" where
  "ShouldRefreshWorkers e p \<longleftrightarrow>
     to_seconds (steady_now e - m_last_discovery p) \<ge> m_discovery_interval p"

text \<open>The loop shared by \<open>DiscoverWorkers\<close> and \<open>AddWorker\<close>: connect to an endpoint that
  no connection has, and keep the connection when it is healthy.\<close>

definition add_if_new :: "env \<Rightarrow> string \<Rightarrow> WorkerConnection list \<Rightarrow> WorkerConnection list" where
  "add_if_new e endpoint ws =
     (if list_ex (\<lambda>c. m_endpoint c = endpoint) ws then ws
      else (case IsHealthy e (new_WorkerConnection e endpoint) of
              (healthy, worker) \<Rightarrow> if healthy then ws @ [worker] else ws))"

fun add_new_workers :: "env \<Rightarrow> string list \<Rightarrow> WorkerConnection list \<Rightarrow> WorkerConnection list" where
  "add_new_workers e [] ws = ws"
| "add_new_workers e (endpoint # endpoints) ws =
     add_new_workers e endpoints (add_if_new e endpoint ws)"

definition DiscoverWorkers :: "env \<Rightarrow> WorkerPool \<Rightarrow> WorkerPool" where
  "DiscoverWorkers e p =
     (let endpoints = GetWorkerEndpoints e p;
          kept = filter (\<lambda>c. m_endpoint c \<in> set endpoints) (m_workers p)
      in p\<lparr>m_workers := add_new_workers e endpoints kept, m_last_discovery := steady_now e\<rparr>)"

definition RefreshWorkers :: "env \<Rightarrow> WorkerPool \<Rightarrow> WorkerPool" where
  "RefreshWorkers e p = (if ShouldRefreshWorkers e p then DiscoverWorkers e p else p)"

text \<open>\<open>for (auto& worker : workers_) if (worker->IsHealthy()) healthy.push_back(...)\<close>:
  the pointers of the healthy connections, and the connections after their checks.\<close>

fun healthy_scan ::
  "env \<Rightarrow> WorkerConnection list \<Rightarrow> worker_ptr \<Rightarrow> worker_ptr list \<times> WorkerConnection list" where
  "healthy_scan e [] i = ([], [])"
| "healthy_scan e (c # cs) i =
     (case IsHealthy e c of
        (healthy, c') \<Rightarrow>
          (case healthy_scan e cs (Suc i) of
             (hs, cs') \<Rightarrow> (if healthy then i # hs else hs, c' # cs')))"

definition GetHealthyWorkers :: "env \<Rightarrow> WorkerPool \<Rightarrow> worker_ptr list \<times> WorkerPool" where
  "GetHealthyWorkers e p =
     (case healthy_scan e (m_workers p) 0 of (hs, ws) \<Rightarrow> (hs, p\<lparr>m_workers := ws\<rparr>))"

definition GetAllWorkers :: "WorkerPool \<Rightarrow> worker_ptr list" where
  "GetAllWorkers p = [0..<length (m_workers p)]"

definition AddWorker :: "env \<Rightarrow> string \<Rightarrow> WorkerPool \<Rightarrow> WorkerPool" where
  "AddWorker e endpoint p = p\<lparr>m_workers := add_if_new e endpoint (m_workers p)\<rparr>"

definition RemoveWorker :: "string \<Rightarrow> WorkerPool \<Rightarrow> WorkerPool" where
  "RemoveWorker endpoint p =
     p\<lparr>m_workers := filter (\<lambda>c. m_endpoint c \<noteq> endpoint) (m_workers p)\<rparr>"

definition FindWorker :: "string \<Rightarrow> WorkerPool \<Rightarrow> worker_ptr option" where
  "FindWorker endpoint p =
     find (\<lambda>i. m_endpoint (m_workers p ! i) = endpoint) [0..<length (m_workers p)]"

definition GetTotalWorkers :: "WorkerPool \<Rightarrow> int" where
  "GetTotalWorkers p = int (length (m_workers p))"

definition GetActiveWorkers :: "env \<Rightarrow> WorkerPool \<Rightarrow> int \<times> WorkerPool" where
  "GetActiveWorkers e p =
     (case healthy_scan e (m_workers p) 0 of (hs, ws) \<Rightarrow> (int (length hs), p\<lparr>m_workers := ws\<rparr>))"

fun worker_info_scan ::
  "env \<Rightarrow> WorkerConnection list \<Rightarrow> InternalWorkerInfo list \<times> WorkerConnection list" where
  "worker_info_scan e [] = ([], [])"
| "worker_info_scan e (c # cs) =
     (case IsHealthy e c of
        (healthy, c') \<Rightarrow>
          (case worker_info_scan e cs of
             (infos, cs') \<Rightarrow>
               (\<lparr>iw_endpoint = m_endpoint c', iw_worker_id = 0,
                  iw_status = (if healthy then ''healthy'' else ''unhealthy''),
                  iw_active_jobs = GetActiveJobs c',
                  iw_total_jobs_processed = GetTotalJobsProcessed c',
                  iw_average_processing_time_ms = GetAverageProcessingTimeMs c',
                  iw_last_heartbeat = system_now e\<rparr> # infos,
                c' # cs')))"

definition GetWorkerInfo :: "env \<Rightarrow> WorkerPool \<Rightarrow> InternalWorkerInfo list \<times> WorkerPool" where
  "GetWorkerInfo e p =
     (case worker_info_scan e (m_workers p) of (infos, ws) \<Rightarrow> (infos, p\<lparr>m_workers := ws\<rparr>))"

section \<open>load\_balancer.h, load\_balancer.cpp\<close>

datatype LoadBalancingStrategy = ROUND_ROBIN | LEAST_LOADED | RANDOM | WEIGHTED_ROUND_ROBIN

text \<open>\<open>m_random_hi\<close> is the upper bound of \<open>random_distribution_\<close>, whose lower bound is
  always 0.\<close>

record LoadBalancer =
  m_strategy :: LoadBalancingStrategy
  m_round_robin_index :: size_t
  m_random_hi :: nat

definition new_LoadBalancer :: "LoadBalancingStrategy \<Rightarrow> LoadBalancer" where
  "new_LoadBalancer strategy =
     \<lparr>m_strategy = strategy, m_round_robin_index = 0, m_random_hi = 0\<rparr>"

definition SetStrategy :: "LoadBalancingStrategy \<Rightarrow> LoadBalancer \<Rightarrow> LoadBalancer" where
  "SetStrategy strategy lb = lb\<lparr>m_strategy := strategy\<rparr>"

text \<open>\<open>round_robin_index_.fetch_add(1) % workers.size()\<close>: the index before the increment,
  which wraps at \<open>2^64\<close>.\<close>

definition SelectRoundRobin ::
  "env \<Rightarrow> WorkerPool \<Rightarrow> LoadBalancer \<Rightarrow> worker_ptr option \<times> WorkerPool \<times> LoadBalancer" where
  "SelectRoundRobin e p lb =
     (case GetHealthyWorkers e p of
        (workers, p') \<Rightarrow>
          if workers = [] then (None, p', lb)
          else (Some (workers ! (unat (m_round_robin_index lb) mod length workers)), p',
                lb\<lparr>m_round_robin_index := m_round_robin_index lb + 1\<rparr>))"

text \<open>\<open>std::min_element\<close> and \<open>std::max_element\<close> return the first extremal position.\<close>

fun first_min :: "('a \<Rightarrow> int) \<Rightarrow> 'a \<Rightarrow> 'a list \<Rightarrow> 'a" where
  "first_min f best [] = best"
| "first_min f best (a # as) = first_min f (if f a < f best then a else best) as"

fun first_max :: "real \<Rightarrow> nat \<Rightarrow> nat \<Rightarrow> real list \<Rightarrow> nat" where
  "first_max best_weight best i [] = best"
| "first_max best_weight best i (v # vs) =
     (if best_weight < v then first_max v i (Suc i) vs
      else first_max best_weight best (Suc i) vs)"

definition max_weight_index :: "real list \<Rightarrow> nat" where
  "max_weight_index weights = (case weights of [] \<Rightarrow> 0 | v # vs \<Rightarrow> first_max v 0 1 vs)"

definition SelectLeastLoaded ::
  "env \<Rightarrow> WorkerPool \<Rightarrow> LoadBalancer \<Rightarrow> worker_ptr option \<times> WorkerPool \<times> LoadBalancer" where
  "SelectLeastLoaded e p lb =
     (case GetHealthyWorkers e p of
        (workers, p') \<Rightarrow>
          (case workers of
             [] \<Rightarrow> (None, p', lb)
           | a # as \<Rightarrow>
               (Some (first_min (\<lambda>i. GetActiveJobs (m_workers p' ! i)) a as), p', lb)))"

text \<open>\<open>workers[index]\<close> with an index drawn between 0 and the bound that \<open>GetNextWorker\<close>
  took from its own snapshot.\<close>

definition SelectRandom ::
  "env \<Rightarrow> WorkerPool \<Rightarrow> LoadBalancer
     \<Rightarrow> error + (worker_ptr option \<times> WorkerPool \<times> LoadBalancer)" where
  "SelectRandom e p lb =
     (case GetHealthyWorkers e p of
        (workers, p') \<Rightarrow>
          if workers = [] then Inr (None, p', lb)
          else (let index = random_draw e mod (m_random_hi lb + 1)
                in if index < length workers then Inr (Some (workers ! index), p', lb)
                   else Inl OutOfRangeRead))"

text \<open>\<open>CalculateWorkerWeight\<close> of a pointer into the snapshot, which is never null.\<close>

definition CalculateWorkerWeight :: "env \<Rightarrow> WorkerConnection \<Rightarrow> real \<times> WorkerConnection" where
  "CalculateWorkerWeight e worker =
     (let active_jobs_weight = 1 / (1 + of_int (GetActiveJobs worker));
          processing_speed_weight = 1 / (1 + GetAverageProcessingTimeMs worker / 1000)
      in case IsHealthy e worker of
           (healthy, worker') \<Rightarrow>
             (active_jobs_weight * (1/2) + processing_speed_weight * (3/10)
                + (if healthy then 1 else 0) * (2/10),
              worker'))"

text \<open>\<open>for (auto* worker : workers) weights.push_back(CalculateWorkerWeight(worker))\<close>\<close>

fun weigh :: "env \<Rightarrow> worker_ptr list \<Rightarrow> WorkerConnection list \<Rightarrow> real list \<times> WorkerConnection list" where
  "weigh e [] ws = ([], ws)"
| "weigh e (i # is) ws =
     (case CalculateWorkerWeight e (ws ! i) of
        (weight, worker') \<Rightarrow>
          (case weigh e is (ws[i := worker']) of
             (weights, ws') \<Rightarrow> (weight # weights, ws')))"

definition SelectWeightedRoundRobin ::
  "env \<Rightarrow> WorkerPool \<Rightarrow> LoadBalancer \<Rightarrow> worker_ptr option \<times> WorkerPool \<times> LoadBalancer" where
  "SelectWeightedRoundRobin e p lb =
     (case GetHealthyWorkers e p of
        (workers, p') \<Rightarrow>
          if workers = [] then (None, p', lb)
          else (case weigh e workers (m_workers p') of
                  (weights, ws') \<Rightarrow>
                    (Some (workers ! max_weight_index weights), p'\<lparr>m_workers := ws'\<rparr>, lb)))"

definition GetNextWorker ::
  "env \<Rightarrow> WorkerPool \<Rightarrow> LoadBalancer
     \<Rightarrow> error + (worker_ptr option \<times> WorkerPool \<times> LoadBalancer)" where
  "GetNextWorker e p lb =
     (case GetHealthyWorkers e p of
        (workers, p') \<Rightarrow>
          if workers = [] then Inr (None, p', lb)
          else (let lb' = lb\<lparr>m_random_hi := length workers - 1\<rparr>
                in case m_strategy lb' of
                     ROUND_ROBIN \<Rightarrow> Inr (SelectRoundRobin e p' lb')
                   | LEAST_LOADED \<Rightarrow> Inr (SelectLeastLoaded e p' lb')
                   | RANDOM \<Rightarrow> SelectRandom e p' lb'
                   | WEIGHTED_ROUND_ROBIN \<Rightarrow> Inr (SelectWeightedRoundRobin e p' lb')))"

text \<open>Consecutive calls of \<open>SelectRoundRobin\<close>, each on the pool and the balancer the
  previous call left: the workers they select, in order.\<close>

fun round_robin_calls ::
  "nat \<Rightarrow> env \<Rightarrow> WorkerPool \<Rightarrow> LoadBalancer \<Rightarrow> worker_ptr option list" where
  "round_robin_calls 0 e p lb = []"
| "round_robin_calls (Suc n) e p lb =
     (case SelectRoundRobin e p lb of
        (selected, p', lb') \<Rightarrow> selected # round_robin_calls n e p' lb')"

section \<open>The messages of the master service\<close>

record RaycastRequest =
  mq_request_id :: string
  client_id :: string
  mq_timestamp :: nat
  mq_player :: Player
  mq_screen_width :: int
  mq_screen_height :: int
  mq_fov :: real
  mq_start_column :: int
  mq_end_column :: int
  mq_map :: "int list"
  mq_map_width :: int
  mq_map_height :: int

record RaycastResponse =
  success :: bool
  error_message :: string
  worker_endpoint :: string
  mr_request_id :: string
  mr_client_id :: string
  mr_worker_id :: int
  mr_timestamp :: nat
  mr_processing_time_ms :: int
  mr_results :: "RaycastResult list"

record WorkerInfo =
  wi_endpoint :: string
  wi_worker_id :: int
  wi_status :: string
  wi_active_jobs :: int
  wi_total_jobs_processed :: int
  wi_average_processing_time_ms :: real
  wi_last_heartbeat :: nat

record MasterStatus =
  total_workers :: int
  active_workers :: int
  total_requests_processed :: int
  average_response_time_ms :: real
  ms_timestamp :: nat
  workers :: "WorkerInfo list"

section \<open>master\_server.h, master\_server.cpp\<close>

record MasterServiceImpl =
  m_worker_pool :: WorkerPool
  m_load_balancer :: LoadBalancer
  m_total_requests_processed :: atomic_int
  m_total_response_time_ms :: real

text \<open>The constructor: the default pool and balancer, then one discovery.\<close>

definition new_MasterServiceImpl :: "env \<Rightarrow> MasterServiceImpl" where
  "new_MasterServiceImpl e =
     \<lparr>m_worker_pool = DiscoverWorkers e (new_WorkerPool e ''raycast-worker-service'' ''default''),
      m_load_balancer = new_LoadBalancer ROUND_ROBIN,
      m_total_requests_processed = 0, m_total_response_time_ms = 0\<rparr>"

text \<open>\<open>ConvertRequest\<close> fills a fresh \<open>RenderRequest\<close>.\<close>

definition ConvertRequest :: "RaycastRequest \<Rightarrow> RenderRequest" where
  "ConvertRequest master_request =
     \<lparr>request_id = mq_request_id master_request,
      player_id = client_id master_request,
      rq_player =
        \<lparr>pl_x = pl_x (mq_player master_request), pl_y = pl_y (mq_player master_request),
         pl_angle = pl_angle (mq_player master_request),
         pl_pitch = pl_pitch (mq_player master_request),
         pl_id = pl_id (mq_player master_request),
         pl_timestamp = pl_timestamp (mq_player master_request)\<rparr>,
      screen_width = mq_screen_width master_request,
      screen_height = mq_screen_height master_request,
      rq_fov = mq_fov master_request,
      start_column = mq_start_column master_request,
      end_column = mq_end_column master_request,
      rq_map = mq_map master_request,
      map_width = mq_map_width master_request,
      map_height = mq_map_height master_request,
      rq_timestamp = mq_timestamp master_request\<rparr>"

definition ConvertResponse :: "RenderResponse \<Rightarrow> RaycastResponse \<Rightarrow> RaycastResponse" where
  "ConvertResponse worker_response master_response =
     master_response
       \<lparr>mr_request_id := rp_request_id worker_response,
        mr_client_id := rp_player_id worker_response,
        mr_worker_id := worker_id worker_response,
        mr_timestamp := rp_timestamp worker_response,
        mr_processing_time_ms := processing_time_ms worker_response,
        mr_results := mr_results master_response @ results worker_response\<rparr>"

text \<open>\<open>total_requests_processed_.fetch_add(1)\<close> on a \<open>std::atomic<int>\<close> wraps around.\<close>

definition UpdateStats :: "int \<Rightarrow> MasterServiceImpl \<Rightarrow> MasterServiceImpl" where
  "UpdateStats response_time_ms ms =
     ms\<lparr>m_total_requests_processed := m_total_requests_processed ms + 1,
        m_total_response_time_ms := m_total_response_time_ms ms + of_int response_time_ms\<rparr>"

text \<open>
  \<open>ProcessRaycastRequest\<close>. The result is the status, the response and the state of the
  master after the call, together with the requests the call forwarded to workers, each
  with the endpoint it went to.
\<close>

definition ProcessRaycastRequest ::
  "env \<Rightarrow> MasterServiceImpl \<Rightarrow> RaycastRequest \<Rightarrow> RaycastResponse
     \<Rightarrow> error + (Status \<times> RaycastResponse \<times> MasterServiceImpl \<times> (string \<times> RenderRequest) list)"
where
  "ProcessRaycastRequest e ms request response =
     (let p1 = RefreshWorkers e (m_worker_pool ms)
      in case GetNextWorker e p1 (m_load_balancer ms) of
           Inl err \<Rightarrow> Inl err
         | Inr (None, p2, lb2) \<Rightarrow>
             Inr (\<lparr>status_code = UNAVAILABLE, status_message = ''No workers available''\<rparr>,
                  response\<lparr>success := False, error_message := ''No workers available''\<rparr>,
                  ms\<lparr>m_worker_pool := p2, m_load_balancer := lb2\<rparr>, [])
         | Inr (Some worker, p2, lb2) \<Rightarrow>
             if worker < length (m_workers p2)
             then (let worker_request = ConvertRequest request;
                       empty = \<lparr>rp_request_id = '''', rp_player_id = '''', worker_id = 0,
                                rp_timestamp = 0, processing_time_ms = 0, results = []\<rparr>
                   in case WorkerConnection_ProcessRenderRequest e (m_workers p2 ! worker) worker_request empty of
                        (st, worker_response, worker') \<Rightarrow>
                          (let p3 = p2\<lparr>m_workers := (m_workers p2)[worker := worker']\<rparr>;
                               ms3 = ms\<lparr>m_worker_pool := p3, m_load_balancer := lb2\<rparr>;
                               sent = (if m_stub (m_workers p2 ! worker)
                                       then [(m_endpoint (m_workers p2 ! worker), worker_request)]
                                       else [])
                           in if ok st
                              then Inr (st,
                                        (ConvertResponse worker_response response)
                                          \<lparr>worker_endpoint := m_endpoint worker',
                                           success := True\<rparr>,
                                        UpdateStats (request_ms e) ms3, sent)
                              else Inr (st,
                                        response\<lparr>success := False,
                                                 error_message := status_message st\<rparr>,
                                        ms3, sent)))
             else Inl OutOfRangeRead)"

definition to_WorkerInfo :: "InternalWorkerInfo \<Rightarrow> WorkerInfo" where
  "to_WorkerInfo info =
     \<lparr>wi_endpoint = iw_endpoint info, wi_worker_id = iw_worker_id info,
      wi_status = iw_status info, wi_active_jobs = iw_active_jobs info,
      wi_total_jobs_processed = iw_total_jobs_processed info,
      wi_average_processing_time_ms = iw_average_processing_time_ms info,
      wi_last_heartbeat = iw_last_heartbeat info\<rparr>"

definition GetMasterStatus ::
  "env \<Rightarrow> MasterServiceImpl \<Rightarrow> MasterStatus \<Rightarrow> Status \<times> MasterStatus \<times> MasterServiceImpl" where
  "GetMasterStatus e ms response =
     (let p1 = RefreshWorkers e (m_worker_pool ms)
      in case GetWorkerInfo e p1 of
           (worker_info, p2) \<Rightarrow>
             (case GetActiveWorkers e p2 of
                (active, p3) \<Rightarrow>
                  (Status_OK,
                   response
                     \<lparr>total_workers := GetTotalWorkers p2,
                      active_workers := active,
                      total_requests_processed := sint (m_total_requests_processed ms),
                      average_response_time_ms :=
                        (if sint (m_total_requests_processed ms) > 0
                         then m_total_response_time_ms ms
                                / of_int (sint (m_total_requests_processed ms))
                         else 0),
                      ms_timestamp := system_now e,
                      workers := workers response @ map to_WorkerInfo worker_info\<rparr>,
                   ms\<lparr>m_worker_pool := p3\<rparr>)))"

section \<open>Sample environment and states\<close>

text \<open>An environment in which every worker answers its status call, but the one at
  \<open>down:50051\<close>, whose call throws, and the default service endpoint, which answers
  \<open>UNAVAILABLE\<close>.\<close>

definition demo_env :: env where
  "demo_env =
     \<lparr>steady_now = 60000, system_now = 1000, HEALTH_CHECK_INTERVAL_SECONDS = None,
      WORKER_PORT = None, create_channel_throws = (\<lambda>endpoint. False),
      status_rpc =
        (\<lambda>endpoint.
           if endpoint = ''down:50051'' then Threw ''unreachable''
           else if endpoint = ''raycast-worker-service.default.svc.cluster.local:50051''
           then Replied \<lparr>status_code = UNAVAILABLE, status_message = ''no route''\<rparr> empty_status
           else Replied Status_OK empty_status),
      render_rpc = (\<lambda>endpoint request response. Replied Status_OK response),
      render_rpc_ms = 3, request_ms = 5, random_draw = 0\<rparr>"

text \<open>A connected, healthy connection last checked at the given time.\<close>

definition demo_connection :: "string \<Rightarrow> int \<Rightarrow> WorkerConnection" where
  "demo_connection endpoint checked =
     \<lparr>m_endpoint = endpoint, m_stub = True, m_is_healthy = True, m_active_jobs = 0,
      m_total_jobs_processed = 0, m_total_processing_time_ms = 0,
      m_last_health_check = checked\<rparr>"

definition demo_pool :: WorkerPool where
  "demo_pool =
     \<lparr>m_workers = [demo_connection ''a:50051'' 60000, demo_connection ''b:50051'' 60000,
                   demo_connection ''c:50051'' 60000],
      m_worker_service_name = ''raycast-worker-service'', m_worker_namespace = ''default'',
      m_last_discovery = 60000, m_discovery_interval = 30\<rparr>"

definition demo_master :: MasterServiceImpl where
  "demo_master =
     \<lparr>m_worker_pool = new_WorkerPool demo_env ''raycast-worker-service'' ''default'',
      m_load_balancer = new_LoadBalancer ROUND_ROBIN,
      m_total_requests_processed = 3, m_total_response_time_ms = 30\<rparr>"

text \<open>The master after \<open>2^31\<close> requests, each served in 5 milliseconds.\<close>

definition wrapped_master :: MasterServiceImpl where
  "wrapped_master =
     \<lparr>m_worker_pool = new_WorkerPool demo_env ''raycast-worker-service'' ''default'',
      m_load_balancer = new_LoadBalancer ROUND_ROBIN,
      m_total_requests_processed = 2147483648, m_total_response_time_ms = 10737418240\<rparr>"

definition demo_raycast_request :: RaycastRequest where
  "demo_raycast_request =
     \<lparr>mq_request_id = ''r1'', client_id = ''c1'', mq_timestamp = 0,
      mq_player = \<lparr>pl_x = 3/2, pl_y = 3/2, pl_angle = 0, pl_pitch = 0, pl_id = ''c1'',
                   pl_timestamp = 0\<rparr>,
      mq_screen_width = 8, mq_screen_height = 768, mq_fov = 1,
      mq_start_column = 0, mq_end_column = 8,
      mq_map = [1, 1, 1, 1, 0, 1, 1, 1, 1], mq_map_width = 3, mq_map_height = 3\<rparr>"

definition empty_raycast_response :: RaycastResponse where
  "empty_raycast_response =
     \<lparr>success = False, error_message = '''', worker_endpoint = '''', mr_request_id = '''',
      mr_client_id = '''', mr_worker_id = 0, mr_timestamp = 0, mr_processing_time_ms = 0,
      mr_results = []\<rparr>"

definition empty_master_status :: MasterStatus where
  "empty_master_status =
     \<lparr>total_workers = 0, active_workers = 0, total_requests_processed = 0,
      average_response_time_ms = 0, ms_timestamp = 0, workers = []\<rparr>"

section \<open>Operations on the pool, one at a time\<close>

text \<open>The operations that touch the pool's connections: the public operations of
  \<open>WorkerPool\<close>, and \<open>PerformHealthCheck\<close> and \<open>IsHealthy\<close> on the connection behind a
  pointer.\<close>

datatype pool_op =
  Discover | Refresh | Healthy | Active | Info | Add string | Remove string
  | Probe worker_ptr | Check worker_ptr

fun pool_step :: "env \<Rightarrow> pool_op \<Rightarrow> WorkerPool \<Rightarrow> WorkerPool" where
  "pool_step e Discover p = DiscoverWorkers e p"
| "pool_step e Refresh p = RefreshWorkers e p"
| "pool_step e Healthy p = snd (GetHealthyWorkers e p)"
| "pool_step e Active p = snd (GetActiveWorkers e p)"
| "pool_step e Info p = snd (GetWorkerInfo e p)"
| "pool_step e (Add endpoint) p = AddWorker e endpoint p"
| "pool_step e (Remove endpoint) p = RemoveWorker endpoint p"
| "pool_step e (Probe i) p =
     (if i < length (m_workers p)
      then p\<lparr>m_workers := (m_workers p)[i := snd (PerformHealthCheck e (m_workers p ! i))]\<rparr>
      else p)"
| "pool_step e (Check i) p =
     (if i < length (m_workers p)
      then p\<lparr>m_workers := (m_workers p)[i := snd (IsHealthy e (m_workers p ! i))]\<rparr>
      else p)"

definition endpoints :: "WorkerPool \<Rightarrow> string list" where
  "endpoints p = map m_endpoint (m_workers p)"

text \<open>Two states of a connection that differ at most in the health flag and the time of
  the last check.\<close>

definition same_but_health :: "WorkerConnection \<Rightarrow> WorkerConnection \<Rightarrow> bool" where
  "same_but_health c c' \<longleftrightarrow>
     c' = c\<lparr>m_is_healthy := m_is_healthy c', m_last_health_check := m_last_health_check c'\<rparr>"

definition is_health_op :: "pool_op \<Rightarrow> bool" where
  "is_health_op op =
     (case op of Healthy \<Rightarrow> True | Active \<Rightarrow> True | Info \<Rightarrow> True
      | Probe i \<Rightarrow> True | Check i \<Rightarrow> True | _ \<Rightarrow> False)"

text \<open>A pool whose first worker no longer answers.\<close>

definition failing_pool :: WorkerPool where
  "failing_pool =
     \<lparr>m_workers = [demo_connection ''down:50051'' 0, demo_connection ''a:50051'' 0],
      m_worker_service_name = ''raycast-worker-service'', m_worker_namespace = ''default'',
      m_last_discovery = 60000, m_discovery_interval = 30\<rparr>"

chapter \<open>Verification\<close>

section \<open>The engine\<close>

subsection \<open>The march terminates with a cell on every consistent map\<close>

lemma cell_ok:
  assumes "map_ok m w h" "0 \<le> my" "my < h" "0 \<le> mx" "mx < w"
  shows "\<exists>v. cell m my mx = Inr v"
proof -
  from assms have a: "nat my < nat h" "nat mx < nat w" by auto
  with assms(1) have l: "nat my < length m" unfolding map_ok_def by linarith
  from assms(1) a l have "nat w \<le> length (m ! nat my)"
    by (simp add: map_ok_def list_all_length)
  with a(2) have "nat mx < length (m ! nat my)" by linarith
  with l show ?thesis by (simp add: cell_def)
qed

lemma march_ok:
  "map_ok m w h \<Longrightarrow> \<exists>s'. march dx dy m w h s = Inr s'"
proof (induction dx dy m w h s rule: march.induct)
  case (1 dx dy m w h s)
  let ?a = "advance dx dy s"
  show ?case
  proof (cases "outside w h ?a")
    case True
    then show ?thesis by (subst march.simps) simp
  next
    case False
    then obtain v where v: "cell m (mapY ?a) (mapX ?a) = Inr v"
      using cell_ok[OF "1.prems", of "mapY ?a" "mapX ?a"] by (auto simp: outside_def)
    show ?thesis
    proof (cases "v = 1")
      case True
      with False v show ?thesis by (subst march.simps) simp
    next
      case nv: False
      from "1.IH"[OF False v nv "1.prems"] obtain s' where "march dx dy m w h ?a = Inr s'"
        by blast
      with False v nv show ?thesis by (subst march.simps) simp
    qed
  qed
qed

lemma castRay_ok: "map_ok m w h \<Longrightarrow> \<exists>d wt wx. castRay a px py pp m w h = Inr (d, wt, wx)"
  using march_ok[of m w h]
  unfolding castRay_def castRay_hit_def Let_def
  by (metis (no_types, lifting) sum.simps(6))

lemma renderColumn_ok:
  "map_ok (map_cells request) (mapWidth request) (mapHeight request) \<Longrightarrow>
   \<exists>c. renderColumn request x = Inr c \<and> column c = x"
  using castRay_ok[of "map_cells request" "mapWidth request" "mapHeight request"]
  unfolding renderColumn_def Let_def
  by (auto split: sum.splits prod.splits) (metis Inl_Inr_False)

lemma render_loop_ok:
  "map_ok (map_cells request) (mapWidth request) (mapHeight request) \<Longrightarrow>
   \<exists>cs. render_loop request x acc = Inr (acc @ cs)
         \<and> map column cs = [x..endColumn request - 1]"
proof (induction request x acc rule: render_loop.induct)
  case (1 request x acc)
  show ?case
  proof (cases "x < endColumn request")
    case False
    then show ?thesis by (subst render_loop.simps) simp
  next
    case True
    from renderColumn_ok[OF "1.prems", of x] obtain c where
      c: "renderColumn request x = Inr c" "column c = x" by blast
    from "1.IH"[OF True c(1) "1.prems"] obtain cs where
      cs: "render_loop request (x + 1) (acc @ [c]) = Inr ((acc @ [c]) @ cs)"
          "map column cs = [x + 1..endColumn request - 1]" by blast
    have "[x..endColumn request - 1] = x # [x + 1..endColumn request - 1]"
      using True by (simp add: upto_rec1)
    with True c cs show ?thesis
      by (subst render_loop.simps) (auto intro!: exI[of _ "c # cs"])
  qed
qed

text \<open>
  C1. For every render job with \<open>0 \<le> startColumn < endColumn \<le> screenWidth\<close> (whose map
  has the rows and columns that \<open>mapWidth\<close> and \<open>mapHeight\<close> declare), \<open>renderColumns\<close>
  returns, and what it returns has exactly \<open>endColumn - startColumn\<close> entries whose
  \<open>column\<close> fields are \<open>startColumn, startColumn + 1, ..., endColumn - 1\<close> in this order.
\<close>

theorem renderColumns_covers_range:
  assumes "0 \<le> startColumn request"
    and "startColumn request < endColumn request"
    and "endColumn request \<le> screenWidth request"
    and "map_ok (map_cells request) (mapWidth request) (mapHeight request)"
  shows "\<exists>rs. renderColumns request = Inr rs
           \<and> int (length rs) = endColumn request - startColumn request
           \<and> map column rs = [startColumn request..endColumn request - 1]"
proof -
  from render_loop_ok[OF assms(4), of "startColumn request" "[]"] obtain cs where
    cs: "render_loop request (startColumn request) [] = Inr cs"
        "map column cs = [startColumn request..endColumn request - 1]" by auto
  have "length cs = length (map column cs)" by simp
  also have "\<dots> = nat (endColumn request - startColumn request)"
    using cs(2) by simp
  finally have "int (length cs) = endColumn request - startColumn request"
    using assms(2) by simp
  with cs assms(2) show ?thesis by (simp add: renderColumns_def)
qed

theorem renderColumns_covers_range_witness:
  "0 \<le> startColumn demo_request \<and> startColumn demo_request < endColumn demo_request
   \<and> endColumn demo_request \<le> screenWidth demo_request
   \<and> map_ok (map_cells demo_request) (mapWidth demo_request) (mapHeight demo_request)
   \<and> (\<exists>rs. renderColumns demo_request = Inr rs \<and> int (length rs) = 8
             \<and> map column rs = [0..7])"
proof -
  have h: "map_ok (map_cells demo_request) (mapWidth demo_request) (mapHeight demo_request)"
    by (simp add: demo_request_def walled_room_def map_ok_def)
  show ?thesis
    using renderColumns_covers_range[of demo_request, OF _ _ _ h] h
    by (simp add: demo_request_def)
qed

subsection \<open>wallType\<close>







text \<open>The engine renders that column with the grayscale fallback of \<open>getWallColor\<close>.\<close>

lemma west_exit_render:
  "renderColumns west_exit_request =
     Inr [\<lparr>column = 0, distance = 1/2, wallType = - 1, wallX = 1/2, wallTop = - 384,
           wallBottom = 1152, col_r = 254, col_g = 254, col_b = 254\<rparr>]"
proof -
  have r: "castRay pi (1/2) (1/2) 0 [[0]] 1 1 = Inr (1/2, - 1, 1/2)"
    unfolding castRay_def castRay_hit_def
    by (subst march.simps)
       (simp add: Let_def double_to_int_def sideDist0_def deltaDist_def step_def advance_def
          outside_def signed_modulo_int_def)
  have i: "calculateIntensity (1/2) = 254"
    by (simp add: calculateIntensity_def MAX_DISTANCE_def double_to_uint8_def double_to_int_def)
  have c: "renderColumn west_exit_request 0 =
     Inr \<lparr>column = 0, distance = 1/2, wallType = - 1, wallX = 1/2, wallTop = - 384,
           wallBottom = 1152, col_r = 254, col_g = 254, col_b = 254\<rparr>"
    by (simp add: renderColumn_def west_exit_request_def r i
          quotient_to_int_def double_to_int_def SCREEN_HEIGHT_def c_div_def signed_divide_int_def
          getWallColor_def)
  show ?thesis
    unfolding renderColumns_def
    apply (simp add: west_exit_request_def)
    apply (subst render_loop.simps)
    apply (simp add: c[unfolded west_exit_request_def])
    apply (subst render_loop.simps)
    apply simp
    done
qed


subsection \<open>Shading\<close>

lemma calculateIntensity_floor: "50 \<le> calculateIntensity d"
  by (simp add: calculateIntensity_def)

text \<open>Up to \<open>MAX_DISTANCE\<close> the intensity is the truncated linear falloff with the floor
  of 50, and it does not increase with the distance. This is in the exact arithmetic of
  the model: the rounding of \<open>double\<close> can lower the truncated value by one, as at
  distance 640, where the exact product is 51.\<close>

lemma calculateIntensity_in_range:
  assumes "0 \<le> d" "d \<le> 800"
  shows "calculateIntensity d = max (word_of_int \<lfloor>255 * (1 - d / 800)\<rfloor>) 50"
proof -
  have "0 \<le> 255 * (1 - d / 800)" using assms by simp
  moreover have "255 * (1 - d / 800) \<le> 255" using assms by simp
  ultimately show ?thesis
    by (simp add: calculateIntensity_def MAX_DISTANCE_def double_to_uint8_def double_to_int_def)
qed

lemma word8_of_int_mono:
  assumes "0 \<le> b" "b \<le> a" "a \<le> 255"
  shows "(word_of_int b :: uint8_t) \<le> word_of_int a"
proof -
  have "uint (word_of_int b :: uint8_t) = b" "uint (word_of_int a :: uint8_t) = a"
    using assms by (simp_all add: uint_word_of_int take_bit_eq_mod)
  with assms(2) show ?thesis by (simp add: word_le_def)
qed

lemma calculateIntensity_mono_in_range:
  assumes "0 \<le> d1" "d1 \<le> d2" "d2 \<le> 800"
  shows "calculateIntensity d2 \<le> calculateIntensity d1"
proof -
  let ?f = "\<lambda>d::real. \<lfloor>255 * (1 - d / 800)\<rfloor>"
  have "255 * (1 - d2 / 800) \<le> 255 * (1 - d1 / 800)" using assms by (simp add: divide_right_mono)
  then have ba: "?f d2 \<le> ?f d1" by (rule floor_mono)
  have "0 \<le> 255 * (1 - d2 / 800)" using assms by simp
  then have b0: "0 \<le> ?f d2" by simp
  have "255 * (1 - d1 / 800) \<le> 255" using assms by simp
  then have a255: "?f d1 \<le> 255" by (simp add: floor_le_iff)
  have "max x 50 \<le> max y 50" if "x \<le> y" for x y :: uint8_t
    using that by (rule max.mono) simp
  from this[OF word8_of_int_mono[OF b0 ba a255]]
  have "max (word_of_int (?f d2) :: uint8_t) 50 \<le> max (word_of_int (?f d1)) 50" .
  then show ?thesis
    using calculateIntensity_in_range[of d1] calculateIntensity_in_range[of d2] assms by simp
qed

text \<open>The engine does pass distances beyond \<open>MAX_DISTANCE\<close>: in a corridor of 1001 open
  cells the ray leaves the map after 1000.5 cells, and the column is shaded with 193.\<close>

lemma corridor_march:
  "int n \<le> 1000 \<Longrightarrow>
   march 1 0 [replicate 1001 0] 1001 1
     \<lparr>sideDistX = of_int (1000 - int n) + 1/2, sideDistY = 10 ^ 30 / 2,
      mapX = 1000 - int n, mapY = 0, side = sd\<rparr>
   = Inr \<lparr>sideDistX = 1001 + 1/2, sideDistY = 10 ^ 30 / 2, mapX = 1001, mapY = 0, side = 0\<rparr>"
proof (induction n arbitrary: sd)
  case 0
  show ?case
    by (subst march.simps) (simp add: advance_def outside_def deltaDist_def step_def)
next
  case (Suc n)
  let ?s = "\<lparr>sideDistX = of_int (1000 - int (Suc n)) + 1/2, sideDistY = 10 ^ 30 / 2,
      mapX = 1000 - int (Suc n), mapY = 0, side = sd\<rparr>"
  have lt: "real_of_int (1000 - int (Suc n)) + 1/2 < 10 ^ 30 / 2"
  proof -
    have "real_of_int (1000 - int (Suc n)) \<le> 1000" by simp
    then show ?thesis by simp
  qed
  have a: "advance 1 0 ?s =
      \<lparr>sideDistX = of_int (1000 - int n) + 1/2, sideDistY = 10 ^ 30 / 2,
       mapX = 1000 - int n, mapY = 0, side = 0\<rparr>"
    using lt by (simp add: advance_def deltaDist_def step_def)
  have o: "\<not> outside 1001 1 (advance 1 0 ?s)"
    unfolding a using Suc.prems by (simp add: outside_def)
  have c: "cell [replicate 1001 0] 0 (1000 - int n) = Inr 0"
    using Suc.prems by (simp add: cell_def)
  from Suc.IH[of 0] Suc.prems have ih: "march 1 0 [replicate 1001 0] 1001 1 (advance 1 0 ?s) =
     Inr \<lparr>sideDistX = 1001 + 1/2, sideDistY = 10 ^ 30 / 2, mapX = 1001, mapY = 0, side = 0\<rparr>"
    unfolding a by simp
  show ?case
    apply (subst march.simps)
    using o c ih a by simp
qed

lemma corridor_castRay: "castRay 0 (1/2) (1/2) 0 [replicate 1001 0] 1001 1 = Inr (2001/2, 5, 1/2)"
proof -
  have "castRay_hit 0 (1/2) (1/2) 0 [replicate 1001 0] 1001 1 =
     Inr \<lparr>sideDistX = 1001 + 1/2, sideDistY = 10 ^ 30 / 2, mapX = 1001, mapY = 0, side = 0\<rparr>"
    using corridor_march[of 1000 0]
    by (simp add: castRay_hit_def Let_def double_to_int_def sideDist0_def deltaDist_def)
  then show ?thesis
    by (simp add: castRay_def Let_def deltaDist_def signed_modulo_int_def)
qed

lemma corridor_intensity: "calculateIntensity (2001/2) = 193"
  by (simp add: calculateIntensity_def MAX_DISTANCE_def double_to_uint8_def double_to_int_def)

lemma corridor_render:
  "renderColumns corridor_request =
     Inr [\<lparr>column = 0, distance = 2001/2, wallType = 5, wallX = 1/2, wallTop = 384,
           wallBottom = 384, col_r = 134, col_g = 25, col_b = 25\<rparr>]"
proof -
  have c: "renderColumn corridor_request 0 =
     Inr \<lparr>column = 0, distance = 2001/2, wallType = 5, wallX = 1/2, wallTop = 384,
           wallBottom = 384, col_r = 134, col_g = 25, col_b = 25\<rparr>"
    by (simp add: renderColumn_def corridor_request_def corridor_castRay corridor_intensity
          quotient_to_int_def double_to_int_def SCREEN_HEIGHT_def c_div_def signed_divide_int_def
          getWallColor_def baseColors_def shade_def)
  show ?thesis
    unfolding renderColumns_def
    apply (simp add: corridor_request_def)
    apply (subst render_loop.simps)
    apply (simp add: c[unfolded corridor_request_def])
    apply (subst render_loop.simps)
    apply simp
    done
qed

text \<open>
  C4 beyond \<open>MAX_DISTANCE\<close>: at distance 1000 the value \<open>255 * (1 - 1000/800) = -63.75\<close>
  is converted to \<open>uint8_t\<close> before the floor of 50 is applied, and the conversion leaves
  193, above the 50 that distance 800 gives.
\<close>

theorem calculateIntensity_beyond_MAX_DISTANCE:
  "calculateIntensity 800 = 50 \<and> calculateIntensity 1000 = 193"
  by (simp add: calculateIntensity_def MAX_DISTANCE_def double_to_uint8_def double_to_int_def)

subsection \<open>Colours\<close>

text \<open>
  C10. \<open>getWallColor\<close> returns for every \<open>int\<close>: outside \<open>[0,6)\<close> the three channels are the
  intensity itself and the table is not read; inside, the index is within the 6 entries
  of the table and each channel is the entry's channel scaled by \<open>intensity / 255\<close>.
\<close>

theorem getWallColor_total:
  "(wt < 0 \<or> 6 \<le> wt \<longrightarrow> getWallColor wt i = (i, i, i)) \<and>
   (0 \<le> wt \<and> wt < 6 \<longrightarrow>
      nat wt < length baseColors \<and>
      getWallColor wt i =
        (shade (fst (baseColors ! nat wt)) i,
         shade (fst (snd (baseColors ! nat wt))) i,
         shade (snd (snd (baseColors ! nat wt))) i))"
  by (auto simp: getWallColor_def baseColors_def split: prod.splits)

theorem getWallColor_total_witness:
  "getWallColor (- 1) 200 = (200, 200, 200) \<and> getWallColor 7 200 = (200, 200, 200)
   \<and> nat 5 < length baseColors \<and> getWallColor 5 255 = (178, 34, 34)"
  using getWallColor_total[of "- 1" 200] getWallColor_total[of 7 200]
    getWallColor_total[of 5 255]
  by (simp add: baseColors_def shade_def)

section \<open>The worker service\<close>

text \<open>The map that \<open>ProcessRenderRequest\<close> rebuilds from the request has the declared
  number of rows and columns.\<close>

lemma read_map_length: "read_map flat ixs = Inr vs \<Longrightarrow> length vs = length ixs"
  by (induction ixs arbitrary: vs) (auto split: if_splits sum.splits)

lemma read_rows_shape:
  "read_rows flat w ys = Inr rows \<Longrightarrow>
   length rows = length ys \<and> list_all (\<lambda>row. length row = nat w) rows"
proof (induction ys arbitrary: rows)
  case Nil
  then show ?case by simp
next
  case (Cons y ys)
  from Cons.prems obtain row rest where
    r: "read_map flat (map (\<lambda>x. y * w + x) [0..w - 1]) = Inr row"
    and s: "read_rows flat w ys = Inr rest" and rows: "rows = row # rest"
    by (auto split: sum.splits)
  from read_map_length[OF r] have "length row = nat w" by simp
  with Cons.IH[OF s] rows show ?case by simp
qed

lemma to_internal_map_ok:
  assumes "to_internal request = Inr x"
  shows "map_ok (map_cells x) (mapWidth x) (mapHeight x)"
proof -
  from assms obtain rows where
    r: "read_rows (rq_map request) (map_width request) [0..map_height request - 1] = Inr rows"
    and x: "map_cells x = rows" "mapWidth x = map_width request" "mapHeight x = map_height request"
    by (auto simp: to_internal_def split: sum.splits)
  from read_rows_shape[OF r] have "length rows = nat (map_height request)"
    and "list_all (\<lambda>row. length row = nat (map_width request)) rows" by simp_all
  then show ?thesis
    unfolding map_ok_def x by (simp add: list_all_length)
qed

text \<open>A request with a valid column range is served with \<open>OK\<close> and one result per
  column.\<close>

lemma ProcessRenderRequest_columns:
  assumes "to_internal request = Inr x"
    and "0 \<le> start_column request" "start_column request < end_column request"
    and "end_column request \<le> screen_width request"
  shows "\<exists>w' response'. ProcessRenderRequest clk w request response = Inr (w', Status_OK, response')
           \<and> map rs_column (results response') =
               map rs_column (results response) @ [start_column request..end_column request - 1]"
proof -
  from assms(1) have f: "startColumn x = start_column request" "endColumn x = end_column request"
    "screenWidth x = screen_width request"
    by (auto simp: to_internal_def split: sum.splits)
  from render_loop_ok[OF to_internal_map_ok[OF assms(1)], of "startColumn x" "[]"] assms(3) f
  obtain rs where rs: "renderColumns x = Inr rs" "map column rs = [startColumn x..endColumn x - 1]"
    by (auto simp: renderColumns_def)
  have "map rs_column (map to_proto rs) = map column rs"
    by (simp add: to_proto_def comp_def)
  with rs f assms(1) show ?thesis
    by (simp add: ProcessRenderRequest_def Let_def)
qed





text \<open>In a worker that serves one call at a time, the status record mirrors the counter.\<close>

lemma ProcessRenderRequest_mirror:
  assumes "ProcessRenderRequest clk w request response = Inr (w', st, response')"
  shows "activeJobs (m_status w') = m_activeJobs w'"
  using assms
  by (auto simp: ProcessRenderRequest_def Let_def split: sum.splits error.splits)

lemma to_internal_reversed: "\<exists>x. to_internal reversed_request = Inr x"
  by (simp add: to_internal_def reversed_request_def upto.simps)

lemma failed_call:
  "ProcessRenderRequest clk w reversed_request response =
     Inr (w\<lparr>m_activeJobs := m_activeJobs w + 1,
            m_status := (m_status w)\<lparr>activeJobs := m_activeJobs w + 1, status := ''busy''\<rparr>\<rparr>,
          \<lparr>status_code = INTERNAL, status_message = ''Internal processing error''\<rparr>, response)"
proof -
  obtain x where x: "to_internal reversed_request = Inr x" using to_internal_reversed by blast
  then have "renderColumns x = Inl LengthError"
    by (auto simp: to_internal_def renderColumns_def reversed_request_def split: sum.splits)
  with x show ?thesis by (simp add: ProcessRenderRequest_def Let_def)
qed




lemma failed_calls_count:
  "failed_calls (Suc n) (new_RaycastWorkerServiceImpl wid now) =
     (new_RaycastWorkerServiceImpl wid now)
       \<lparr>m_activeJobs := of_nat (Suc n),
        m_status := (m_status (new_RaycastWorkerServiceImpl wid now))
                      \<lparr>activeJobs := of_nat (Suc n), status := ''busy''\<rparr>\<rparr>"
proof -
  have g: "failed_calls n w =
      w\<lparr>m_activeJobs := m_activeJobs w + of_nat n,
        m_status := (m_status w)\<lparr>activeJobs := m_activeJobs w + of_nat n, status := ''busy''\<rparr>\<rparr>"
    if "status (m_status w) = ''busy''" "activeJobs (m_status w) = m_activeJobs w" for n w
    using that
  proof (induction n arbitrary: w)
    case 0
    then show ?case by simp
  next
    case (Suc n)
    let ?w = "w\<lparr>m_activeJobs := m_activeJobs w + 1,
            m_status := (m_status w)\<lparr>activeJobs := m_activeJobs w + 1, status := ''busy''\<rparr>\<rparr>"
    have "failed_calls (Suc n) w = failed_calls n ?w" by (simp add: failed_call)
    also have "\<dots> = ?w\<lparr>m_activeJobs := m_activeJobs ?w + of_nat n,
        m_status := (m_status ?w)\<lparr>activeJobs := m_activeJobs ?w + of_nat n, status := ''busy''\<rparr>\<rparr>"
      by (rule Suc.IH) simp_all
    finally show ?case by (simp add: add.assoc)
  qed
  let ?w0 = "new_RaycastWorkerServiceImpl wid now"
  let ?w1 = "?w0\<lparr>m_activeJobs := m_activeJobs ?w0 + 1,
            m_status := (m_status ?w0)\<lparr>activeJobs := m_activeJobs ?w0 + 1, status := ''busy''\<rparr>\<rparr>"
  have "failed_calls (Suc n) ?w0 = failed_calls n ?w1" by (simp add: failed_call)
  also have "\<dots> = ?w1\<lparr>m_activeJobs := m_activeJobs ?w1 + of_nat n,
        m_status := (m_status ?w1)\<lparr>activeJobs := m_activeJobs ?w1 + of_nat n, status := ''busy''\<rparr>\<rparr>"
    by (rule g) simp_all
  finally show ?thesis by (simp add: new_RaycastWorkerServiceImpl_def add.commute)
qed

lemma saturated_worker_reached:
  "failed_calls 2147483647 (new_RaycastWorkerServiceImpl 1 0) = saturated_worker"
proof -
  have n: "(2147483647::nat) = Suc 2147483646" by simp
  have w: "(of_nat (Suc 2147483646) :: atomic_int) = 2147483647" by simp
  show ?thesis
    unfolding n failed_calls_count w
    by (simp add: new_RaycastWorkerServiceImpl_def saturated_worker_def)
qed

section \<open>The worker pool\<close>

subsection \<open>Health checks\<close>

text \<open>
  C5, as the code has it. \<open>PerformHealthCheck\<close> sets the health flag from the outcome of
  the probe in every case and returns it: true exactly when a stub is connected and the
  status call returned \<open>OK\<close>. It sets the time of the last check to the current time
  exactly when the status call returned a status, \<open>OK\<close> or not; when the call throws or
  no stub is connected, the time of the last check keeps its value.
\<close>

theorem PerformHealthCheck_effect:
  assumes "PerformHealthCheck e c = (healthy, c')"
  shows "m_is_healthy c' = healthy
         \<and> healthy = (m_stub c \<and> (\<exists>st response. status_rpc e (m_endpoint c) = Replied st response \<and> ok st))
         \<and> m_last_health_check c' =
             (if m_stub c \<and> (\<exists>st response. status_rpc e (m_endpoint c) = Replied st response)
              then steady_now e else m_last_health_check c)"
  using assms
  by (auto simp: PerformHealthCheck_def Let_def split: if_splits rpc.splits)

theorem PerformHealthCheck_effect_witness:
  "PerformHealthCheck demo_env (demo_connection ''up:50051'' 0)
     = (True, (demo_connection ''up:50051'' 0)\<lparr>m_is_healthy := True, m_last_health_check := 60000\<rparr>)
   \<and> m_last_health_check (snd (PerformHealthCheck demo_env (demo_connection ''up:50051'' 0)))
       = steady_now demo_env"
proof -
  have p: "PerformHealthCheck demo_env (demo_connection ''up:50051'' 0)
     = (True, (demo_connection ''up:50051'' 0)\<lparr>m_is_healthy := True, m_last_health_check := 60000\<rparr>)"
    by (simp add: PerformHealthCheck_def demo_env_def demo_connection_def ok_def Status_OK_def)
  from PerformHealthCheck_effect[OF p] p show ?thesis
    by (simp add: demo_env_def demo_connection_def)
qed

text \<open>
  C5, as the claim states it, fails: at time 60000 a probe that throws, and a probe of a
  connection without a stub, both leave the time of the last check at 0.
\<close>

theorem PerformHealthCheck_keeps_timestamp:
  "m_last_health_check (snd (PerformHealthCheck demo_env (demo_connection ''down:50051'' 0))) = 0
   \<and> m_last_health_check
         (snd (PerformHealthCheck demo_env (Disconnect (demo_connection ''up:50051'' 0)))) = 0
   \<and> steady_now demo_env = 60000"
  by (simp add: PerformHealthCheck_def demo_env_def demo_connection_def Disconnect_def)

subsection \<open>Membership\<close>

lemma PerformHealthCheck_same: "same_but_health c (snd (PerformHealthCheck e c))"
  by (auto simp: PerformHealthCheck_def same_but_health_def Let_def split: rpc.splits)

lemma IsHealthy_same: "same_but_health c (snd (IsHealthy e c))"
  using PerformHealthCheck_same[of c e]
  by (auto simp: IsHealthy_def Let_def same_but_health_def)

lemma same_but_health_endpoint: "same_but_health c c' \<Longrightarrow> m_endpoint c' = m_endpoint c"
  unfolding same_but_health_def by (metis WorkerConnection.select_convs(1) WorkerConnection.surjective WorkerConnection.update_convs(3) WorkerConnection.update_convs(7))

lemma healthy_scan_same:
  "healthy_scan e ws i = (hs, ws') \<Longrightarrow> list_all2 same_but_health ws ws'"
proof (induction ws arbitrary: i hs ws')
  case Nil
  then show ?case by simp
next
  case (Cons c cs)
  then show ?case
    using IsHealthy_same[of c e]
    by (auto split: prod.splits)
qed

lemma worker_info_scan_same:
  "worker_info_scan e ws = (infos, ws') \<Longrightarrow> list_all2 same_but_health ws ws'"
proof (induction ws arbitrary: infos ws')
  case Nil
  then show ?case by simp
next
  case (Cons c cs)
  then show ?case
    using IsHealthy_same[of c e]
    by (auto split: prod.splits)
qed

lemma same_refl: "same_but_health c c"
  by (simp add: same_but_health_def)

lemma list_all2_same_refl: "list_all2 same_but_health ws ws"
  by (simp add: list_all2_refl same_refl)

lemma health_op_same:
  "is_health_op op \<Longrightarrow> list_all2 same_but_health (m_workers p) (m_workers (pool_step e op p))"
proof (cases op)
  case Healthy
  then show ?thesis
    by (auto simp: GetHealthyWorkers_def split: prod.splits dest: healthy_scan_same)
next
  case Active
  then show ?thesis
    by (auto simp: GetActiveWorkers_def split: prod.splits dest: healthy_scan_same)
next
  case Info
  then show ?thesis
    by (auto simp: GetWorkerInfo_def split: prod.splits dest: worker_info_scan_same)
next
  case (Probe i)
  then show ?thesis
    by (auto simp: list_all2_conv_all_nth nth_list_update same_refl PerformHealthCheck_same)
next
  case (Check i)
  then show ?thesis
    by (auto simp: list_all2_conv_all_nth nth_list_update same_refl IsHealthy_same)
qed (simp_all add: is_health_op_def)

lemma list_all2_same_endpoints:
  "list_all2 same_but_health ws ws' \<Longrightarrow> map m_endpoint ws' = map m_endpoint ws"
  by (induction rule: list_all2_induct) (auto dest: same_but_health_endpoint)

lemma add_if_new_extends: "\<exists>extra. add_if_new e endpoint ws = ws @ extra"
  by (auto simp: add_if_new_def split: prod.splits)

lemma add_new_workers_extends: "\<exists>extra. add_new_workers e eps ws = ws @ extra"
proof (induction eps arbitrary: ws)
  case Nil
  then show ?case by simp
next
  case (Cons ep eps)
  obtain x where x: "add_if_new e ep ws = ws @ x" using add_if_new_extends by blast
  obtain y where "add_new_workers e eps (ws @ x) = (ws @ x) @ y" using Cons.IH by blast
  with x show ?case by simp
qed

lemma DiscoverWorkers_keeps:
  assumes "ep \<in> set (endpoints p)" and "ep \<in> set (GetWorkerEndpoints e p)"
  shows "ep \<in> set (endpoints (DiscoverWorkers e p))"
proof -
  let ?kept = "filter (\<lambda>c. m_endpoint c \<in> set (GetWorkerEndpoints e p)) (m_workers p)"
  obtain extra where "add_new_workers e (GetWorkerEndpoints e p) ?kept = ?kept @ extra"
    using add_new_workers_extends by blast
  moreover from assms have "ep \<in> m_endpoint ` set ?kept"
    by (auto simp: endpoints_def)
  ultimately show ?thesis
    by (auto simp: DiscoverWorkers_def Let_def endpoints_def)
qed

lemma pool_step_removal:
  assumes "ep \<in> set (endpoints p)" and "ep \<notin> set (endpoints (pool_step e op p))"
  shows "((op = Discover \<or> op = Refresh) \<and> ep \<notin> set (GetWorkerEndpoints e p)) \<or> op = Remove ep"
proof (cases "is_health_op op")
  case True
  from health_op_same[OF True, of p e] have "endpoints (pool_step e op p) = endpoints p"
    by (simp add: endpoints_def list_all2_same_endpoints)
  with assms show ?thesis by simp
next
  case False
  then consider "op = Discover" | "op = Refresh" | x where "op = Add x" | x where "op = Remove x"
    by (cases op) (auto simp: is_health_op_def)
  then show ?thesis
  proof cases
    case 1
    with assms DiscoverWorkers_keeps[of ep p e] show ?thesis by auto
  next
    case 2
    with assms DiscoverWorkers_keeps[of ep p e] show ?thesis
      by (auto simp: RefreshWorkers_def split: if_splits)
  next
    case 3
    obtain extra where "add_if_new e x (m_workers p) = m_workers p @ extra"
      using add_if_new_extends by blast
    with 3 assms show ?thesis by (auto simp: AddWorker_def endpoints_def)
  next
    case 4
    with assms show ?thesis by (auto simp: RemoveWorker_def endpoints_def)
  qed
qed

text \<open>
  C6. The operations that check health (\<open>PerformHealthCheck\<close> and \<open>IsHealthy\<close> on a
  connection of the pool, and the pool operations that call \<open>IsHealthy\<close> on every
  connection) leave the endpoints of the pool as they are, and each connection as it is
  but for its health flag and the time of its last check; a check of one connection leaves
  the other connections untouched. An endpoint leaves the pool only in \<open>DiscoverWorkers\<close>
  (also when \<open>RefreshWorkers\<close> runs it), when the resolved endpoints do not contain it,
  or in \<open>RemoveWorker\<close> of that endpoint.
\<close>

theorem health_check_never_removes:
  "(is_health_op op \<longrightarrow>
      endpoints (pool_step e op p) = endpoints p
      \<and> list_all2 same_but_health (m_workers p) (m_workers (pool_step e op p)))
   \<and> ((op = Probe i \<or> op = Check i) \<and> j \<noteq> i \<and> j < length (m_workers p) \<longrightarrow>
        m_workers (pool_step e op p) ! j = m_workers p ! j)
   \<and> (ep \<in> set (endpoints p) \<and> ep \<notin> set (endpoints (pool_step e op p)) \<longrightarrow>
        ((op = Discover \<or> op = Refresh) \<and> ep \<notin> set (GetWorkerEndpoints e p))
        \<or> op = Remove ep)"
proof (intro conjI impI)
  assume h: "is_health_op op"
  from health_op_same[OF h] show "list_all2 same_but_health (m_workers p) (m_workers (pool_step e op p))" .
  then show "endpoints (pool_step e op p) = endpoints p"
    by (simp add: endpoints_def list_all2_same_endpoints)
next
  assume "(op = Probe i \<or> op = Check i) \<and> j \<noteq> i \<and> j < length (m_workers p)"
  then show "m_workers (pool_step e op p) ! j = m_workers p ! j" by auto
next
  assume "ep \<in> set (endpoints p) \<and> ep \<notin> set (endpoints (pool_step e op p))"
  then show "((op = Discover \<or> op = Refresh) \<and> ep \<notin> set (GetWorkerEndpoints e p)) \<or> op = Remove ep"
    using pool_step_removal by blast
qed

theorem health_check_never_removes_witness:
  "is_health_op (Probe 0)
   \<and> endpoints (pool_step demo_env (Probe 0) failing_pool) = [''down:50051'', ''a:50051'']
   \<and> \<not> m_is_healthy (m_workers (pool_step demo_env (Probe 0) failing_pool) ! 0)
   \<and> m_workers (pool_step demo_env (Probe 0) failing_pool) ! 1 = m_workers failing_pool ! 1
   \<and> is_health_op Healthy
   \<and> endpoints (pool_step demo_env Healthy failing_pool) = [''down:50051'', ''a:50051'']"
proof -
  have a: "is_health_op (Probe 0)" "is_health_op Healthy" by (simp_all add: is_health_op_def)
  have b: "(1::nat) \<noteq> 0 \<and> 1 < length (m_workers failing_pool)" by (simp add: failing_pool_def)
  have c: "\<not> m_is_healthy (m_workers (pool_step demo_env (Probe 0) failing_pool) ! 0)"
    by (simp add: failing_pool_def demo_connection_def demo_env_def PerformHealthCheck_def)
  have d: "endpoints failing_pool = [''down:50051'', ''a:50051'']"
    by (simp add: failing_pool_def demo_connection_def endpoints_def)
  from health_check_never_removes[of "Probe 0" demo_env failing_pool 0 1]
    health_check_never_removes[of Healthy demo_env failing_pool]
    a b c d
  show ?thesis by simp
qed

section \<open>The load balancer\<close>

lemma PerformHealthCheck_idem:
  "PerformHealthCheck e c = (h, c') \<Longrightarrow> PerformHealthCheck e c' = (h, c') \<and> m_is_healthy c' = h"
  by (cases "status_rpc e (m_endpoint c)")
     (auto simp: PerformHealthCheck_def Let_def split: if_splits)

lemma IsHealthy_idem:
  assumes "IsHealthy e c = (h, c')"
  shows "IsHealthy e c' = (h, c')"
proof (cases "PerformHealthCheck e c = (h, c')")
  case True
  from PerformHealthCheck_idem[OF True] show ?thesis
    by (simp add: IsHealthy_def Let_def)
next
  case False
  with assms have "c' = c" "h = m_is_healthy c"
    by (auto simp: IsHealthy_def Let_def split: if_splits)
  with assms show ?thesis by simp
qed

lemma healthy_scan_idem: "healthy_scan e ws i = (hs, ws') \<Longrightarrow> healthy_scan e ws' i = (hs, ws')"
proof (induction ws arbitrary: i hs ws')
  case Nil
  then show ?case by simp
next
  case (Cons c cs)
  obtain h c' where c: "IsHealthy e c = (h, c')" by (cases "IsHealthy e c")
  obtain hs0 cs' where s: "healthy_scan e cs (Suc i) = (hs0, cs')"
    by (cases "healthy_scan e cs (Suc i)")
  from Cons.prems c s have "ws' = c' # cs'" "hs = (if h then i # hs0 else hs0)" by auto
  with IsHealthy_idem[OF c] Cons.IH[OF s] show ?case by simp
qed

lemma GetHealthyWorkers_idem:
  assumes "GetHealthyWorkers e p = (hs, p')"
  shows "GetHealthyWorkers e p' = (hs, p')"
proof -
  from assms obtain ws' where s: "healthy_scan e (m_workers p) 0 = (hs, ws')"
    and p': "p' = p\<lparr>m_workers := ws'\<rparr>"
    by (auto simp: GetHealthyWorkers_def split: prod.splits)
  from healthy_scan_idem[OF s] p' show ?thesis by (simp add: GetHealthyWorkers_def)
qed

lemma healthy_scan_sorted:
  "healthy_scan e ws i = (hs, ws') \<Longrightarrow> distinct hs \<and> (\<forall>j\<in>set hs. i \<le> j \<and> j < i + length ws)"
proof (induction ws arbitrary: i hs ws')
  case Nil
  then show ?case by simp
next
  case (Cons c cs)
  obtain h c' where c: "IsHealthy e c = (h, c')" by (cases "IsHealthy e c")
  obtain hs0 cs' where s: "healthy_scan e cs (Suc i) = (hs0, cs')"
    by (cases "healthy_scan e cs (Suc i)")
  from Cons.prems c s have hs: "hs = (if h then i # hs0 else hs0)" by auto
  from Cons.IH[OF s] have "distinct hs0" "\<forall>j\<in>set hs0. Suc i \<le> j \<and> j < Suc i + length cs" by auto
  with hs show ?case by (auto split: if_splits)
qed

lemma word_step:
  fixes idx :: size_t
  assumes "k < N" "unat idx + N \<le> 2 ^ 64 \<or> N dvd 2 ^ 64"
  shows "unat (idx + of_nat k) mod N = (unat idx + k) mod N"
proof -
  have u: "unat (idx + of_nat k) = (unat idx + k) mod 2 ^ 64"
    by (simp add: unat_word_ariths unat_of_nat mod_add_right_eq)
  from assms(2) show ?thesis
  proof
    assume "unat idx + N \<le> 2 ^ 64"
    with assms(1) have "unat idx + k < 2 ^ 64" by simp
    with u show ?thesis by simp
  next
    assume "N dvd 2 ^ 64"
    then show ?thesis unfolding u by (simp add: mod_mod_cancel)
  qed
qed

lemma residues_inj_le:
  assumes "j \<le> k" "k < (N::nat)" "(a + j) mod N = (a + k) mod N"
  shows "j = k"
proof -
  have "a + j \<le> a + k" using assms(1) by simp
  then have "N dvd (a + k) - (a + j)"
    using assms(3) mod_eq_dvd_iff_nat[of "a + j" "a + k" N] by metis
  then have d: "N dvd k - j" by simp
  have "k - j < N" using assms(2) by simp
  with d have "k - j = 0" by (meson dvd_imp_le not_le zero_less_iff_neq_zero)
  with assms(1) show ?thesis by simp
qed

lemma residues_inj:
  assumes "j < (N::nat)" "k < N" "(a + j) mod N = (a + k) mod N"
  shows "j = k"
  using residues_inj_le[of j k N a] residues_inj_le[of k j N a] assms
  by (cases "j \<le> k") auto

lemma residues_perm:
  assumes "0 < (N::nat)"
  shows "mset (map (\<lambda>k. (a + k) mod N) [0..<N]) = mset [0..<N]"
proof -
  let ?g = "\<lambda>k. (a + k) mod N"
  have inj: "inj_on ?g {0..<N}"
    by (rule inj_onI) (auto dest: residues_inj)
  have "?g ` {0..<N} \<subseteq> {0..<N}" using assms by auto
  moreover have "card (?g ` {0..<N}) = card {0..<N}" using inj by (rule card_image)
  ultimately have img: "?g ` {0..<N} = {0..<N}" by (simp add: card_subset_eq)
  have "distinct (map ?g [0..<N])" using inj by (simp add: distinct_map)
  moreover have "set (map ?g [0..<N]) = set [0..<N]" using img by simp
  ultimately show ?thesis by (metis distinct_upt set_eq_iff_mset_eq_distinct)
qed

lemma SelectRoundRobin_eq:
  assumes "GetHealthyWorkers e p = (ws, p')" "ws \<noteq> []"
  shows "SelectRoundRobin e p lb =
           (Some (ws ! (unat (m_round_robin_index lb) mod length ws)), p',
            lb\<lparr>m_round_robin_index := m_round_robin_index lb + 1\<rparr>)"
  using assms by (simp add: SelectRoundRobin_def)

lemma round_robin_calls_eq:
  assumes "fst (GetHealthyWorkers e p) = ws" "ws \<noteq> []"
  shows "round_robin_calls n e p lb =
           map (\<lambda>k. Some (ws ! (unat (m_round_robin_index lb + of_nat k) mod length ws))) [0..<n]"
  using assms(1)
proof (induction n arbitrary: p lb)
  case 0
  then show ?case by simp
next
  case (Suc n)
  obtain p' where g: "GetHealthyWorkers e p = (ws, p')"
    using Suc.prems by (cases "GetHealthyWorkers e p") auto
  from GetHealthyWorkers_idem[OF g] have g': "fst (GetHealthyWorkers e p') = ws" by simp
  have "round_robin_calls (Suc n) e p lb =
          Some (ws ! (unat (m_round_robin_index lb) mod length ws))
          # round_robin_calls n e p' (lb\<lparr>m_round_robin_index := m_round_robin_index lb + 1\<rparr>)"
    by (simp add: SelectRoundRobin_eq[OF g assms(2)])
  also have "round_robin_calls n e p' (lb\<lparr>m_round_robin_index := m_round_robin_index lb + 1\<rparr>) =
          map (\<lambda>k. Some (ws ! (unat (m_round_robin_index lb + of_nat (Suc k)) mod length ws))) [0..<n]"
  proof -
    have "m_round_robin_index lb + 1 + of_nat k = m_round_robin_index lb + of_nat (Suc k)" for k
      by simp
    with Suc.IH[OF g', of "lb\<lparr>m_round_robin_index := m_round_robin_index lb + 1\<rparr>"]
    show ?thesis by simp
  qed
  finally show ?case by (simp add: map_upt_Suc del: upt_Suc)
qed

text \<open>
  C7, as the code has it. Over a snapshot of \<open>N > 0\<close> healthy workers, \<open>N\<close> consecutive
  calls of \<open>SelectRoundRobin\<close> select every worker of the snapshot exactly once, provided
  the index does not wrap around \<open>2^64\<close> during these calls (start + N \<open>\<le> 2^64\<close>) or \<open>N\<close>
  divides \<open>2^64\<close>.
\<close>

theorem round_robin_visits_each_once:
  assumes "fst (GetHealthyWorkers e p) = ws" and "ws \<noteq> []"
    and "unat (m_round_robin_index lb) + length ws \<le> 2 ^ 64 \<or> length ws dvd 2 ^ 64"
  shows "distinct ws \<and> mset (round_robin_calls (length ws) e p lb) = mset (map Some ws)"
proof -
  let ?N = "length ws"
  let ?a = "unat (m_round_robin_index lb)"
  let ?g = "\<lambda>k. (?a + k) mod ?N"
  let ?h = "\<lambda>i. Some (ws ! i)"
  have d: "distinct ws"
    using assms(1) healthy_scan_sorted[of e "m_workers p" 0]
    by (auto simp: GetHealthyWorkers_def split: prod.splits)
  have "round_robin_calls ?N e p lb =
          map (\<lambda>k. Some (ws ! (unat (m_round_robin_index lb + of_nat k) mod ?N))) [0..<?N]"
    by (rule round_robin_calls_eq[OF assms(1,2)])
  also have "\<dots> = map (\<lambda>k. ?h (?g k)) [0..<?N]"
    using word_step[OF _ assms(3)] by simp
  also have "\<dots> = map ?h (map ?g [0..<?N])"
    by (simp only: map_map comp_def)
  finally have "mset (round_robin_calls ?N e p lb) = image_mset ?h (mset (map ?g [0..<?N]))"
    by (simp only: mset_map)
  also have "mset (map ?g [0..<?N]) = mset [0..<?N]"
    using residues_perm[of ?N ?a] assms(2) by simp
  also have "image_mset ?h (mset [0..<?N]) = mset (map ?h [0..<?N])"
    by (simp only: mset_map)
  also have "map ?h [0..<?N] = map Some (map (\<lambda>i. ws ! i) [0..<?N])"
    by (simp only: map_map comp_def)
  also have "map (\<lambda>i. ws ! i) [0..<?N] = ws" by (rule map_nth)
  finally show ?thesis using d by simp
qed

lemma demo_pool_healthy: "GetHealthyWorkers demo_env demo_pool = ([0, 1, 2], demo_pool)"
  by (simp add: GetHealthyWorkers_def demo_pool_def demo_env_def demo_connection_def
        IsHealthy_def Let_def to_seconds_def c_div_def signed_divide_int_def)

theorem round_robin_visits_each_once_witness:
  "fst (GetHealthyWorkers demo_env demo_pool) = [0, 1, 2]
   \<and> unat (m_round_robin_index (new_LoadBalancer ROUND_ROBIN)) + 3 \<le> 2 ^ 64
   \<and> mset (round_robin_calls 3 demo_env demo_pool (new_LoadBalancer ROUND_ROBIN))
       = mset [Some 0, Some 1, Some 2]"
proof -
  have l: "length [0::nat, 1, 2] = 3" by simp
  have h1: "fst (GetHealthyWorkers demo_env demo_pool) = [0, 1, 2]"
    by (simp add: demo_pool_healthy)
  have h2: "[0::nat, 1, 2] \<noteq> []" by simp
  have h3: "unat (m_round_robin_index (new_LoadBalancer ROUND_ROBIN)) + 3 \<le> 2 ^ 64"
    by (simp add: new_LoadBalancer_def)
  then have "unat (m_round_robin_index (new_LoadBalancer ROUND_ROBIN)) + length [0::nat, 1, 2] \<le> 2 ^ 64
             \<or> length [0::nat, 1, 2] dvd 2 ^ 64"
    unfolding l by (rule disjI1)
  from round_robin_visits_each_once[OF h1 h2 this]
  have "mset (round_robin_calls 3 demo_env demo_pool (new_LoadBalancer ROUND_ROBIN))
          = mset (map Some [0, 1, 2])"
    unfolding l by (rule conjunct2)
  with h1 h3 show ?thesis by simp
qed

text \<open>
  C7, as the claim states it, fails at the starting index \<open>2^64 - 1\<close> with three healthy
  workers: the index wraps to 0 after the first call, and the three calls select the
  first worker twice and the third worker never.
\<close>

theorem round_robin_wraps:
  "round_robin_calls 3 demo_env demo_pool
     \<lparr>m_strategy = ROUND_ROBIN, m_round_robin_index = 18446744073709551615, m_random_hi = 0\<rparr>
   = [Some 0, Some 0, Some 1]"
proof -
  let ?lb = "\<lambda>i. \<lparr>m_strategy = ROUND_ROBIN, m_round_robin_index = i, m_random_hi = 0\<rparr>"
  have s: "SelectRoundRobin demo_env demo_pool (?lb i) =
             (Some ([0, 1, 2] ! (unat i mod 3)), demo_pool, ?lb (i + 1))" for i
    using SelectRoundRobin_eq[OF demo_pool_healthy, of "?lb i"] by simp
  have s1: "SelectRoundRobin demo_env demo_pool (?lb 18446744073709551615) =
              (Some 0, demo_pool, ?lb 0)"
    unfolding s by simp
  have s2: "SelectRoundRobin demo_env demo_pool (?lb 0) = (Some 0, demo_pool, ?lb 1)"
    unfolding s by simp
  have s3: "SelectRoundRobin demo_env demo_pool (?lb 1) = (Some 1, demo_pool, ?lb 2)"
    unfolding s by simp
  have n: "(3::nat) = Suc (Suc (Suc 0))" by simp
  show ?thesis
    unfolding n round_robin_calls.simps by (simp add: s1 s2 s3)
qed

section \<open>The master service\<close>

lemma GetNextWorker_empty:
  assumes "GetHealthyWorkers e p = ([], p')"
  shows "GetNextWorker e p lb = Inr (None, p', lb)"
  using assms by (simp add: GetNextWorker_def)

text \<open>
  C3. When the balancer returns no worker, \<open>ProcessRaycastRequest\<close> returns at once with
  the status \<open>UNAVAILABLE\<close> and a response whose \<open>success\<close> is false and whose
  \<open>error_message\<close> is \<open>No workers available\<close>; it forwards nothing to any worker, and
  the counters of the master are as before.
\<close>

theorem no_worker_fails_immediately:
  assumes "GetNextWorker e (RefreshWorkers e (m_worker_pool ms)) (m_load_balancer ms)
             = Inr (None, p', lb')"
  shows "ProcessRaycastRequest e ms request response =
           Inr (\<lparr>status_code = UNAVAILABLE, status_message = ''No workers available''\<rparr>,
                response\<lparr>success := False, error_message := ''No workers available''\<rparr>,
                ms\<lparr>m_worker_pool := p', m_load_balancer := lb'\<rparr>,
                [])"
  using assms by (simp add: ProcessRaycastRequest_def Let_def)

text \<open>A master whose only endpoint answers its first status call with \<open>UNAVAILABLE\<close>
  starts with an empty pool.\<close>

lemma demo_discovery:
  "new_MasterServiceImpl demo_env =
     \<lparr>m_worker_pool = new_WorkerPool demo_env ''raycast-worker-service'' ''default'',
      m_load_balancer = new_LoadBalancer ROUND_ROBIN,
      m_total_requests_processed = 0, m_total_response_time_ms = 0\<rparr>"
  by (simp add: new_MasterServiceImpl_def DiscoverWorkers_def new_WorkerPool_def
        GetWorkerEndpoints_def demo_env_def add_if_new_def new_WorkerConnection_def Connect_def
        PerformHealthCheck_def IsHealthy_def Let_def ok_def to_seconds_def c_div_def
        signed_divide_int_def)

theorem no_worker_fails_immediately_witness:
  "GetNextWorker demo_env
      (RefreshWorkers demo_env (m_worker_pool (new_MasterServiceImpl demo_env)))
      (m_load_balancer (new_MasterServiceImpl demo_env))
     = Inr (None, m_worker_pool (new_MasterServiceImpl demo_env),
            m_load_balancer (new_MasterServiceImpl demo_env))
   \<and> ProcessRaycastRequest demo_env (new_MasterServiceImpl demo_env) demo_raycast_request
         empty_raycast_response =
       Inr (\<lparr>status_code = UNAVAILABLE, status_message = ''No workers available''\<rparr>,
            empty_raycast_response\<lparr>success := False, error_message := ''No workers available''\<rparr>,
            new_MasterServiceImpl demo_env, [])"
proof -
  let ?ms = "new_MasterServiceImpl demo_env"
  have r: "RefreshWorkers demo_env (m_worker_pool ?ms) = m_worker_pool ?ms"
    unfolding demo_discovery
    by (simp add: RefreshWorkers_def ShouldRefreshWorkers_def new_WorkerPool_def
        demo_env_def to_seconds_def c_div_def signed_divide_int_def)
  have g: "GetHealthyWorkers demo_env (m_worker_pool ?ms) = ([], m_worker_pool ?ms)"
    unfolding demo_discovery by (simp add: GetHealthyWorkers_def new_WorkerPool_def)
  have n: "GetNextWorker demo_env (RefreshWorkers demo_env (m_worker_pool ?ms))
      (m_load_balancer ?ms) = Inr (None, m_worker_pool ?ms, m_load_balancer ?ms)"
    unfolding r by (rule GetNextWorker_empty[OF g])
  from no_worker_fails_immediately[OF n, of demo_raycast_request empty_raycast_response] n
  show ?thesis by simp
qed

subsection \<open>Statistics\<close>

text \<open>The request counter starts at 0 and \<open>UpdateStats\<close> is its only writer; after
  \<open>2^31\<close> requests the counter has wrapped to \<open>INT_MIN\<close>.\<close>

lemma UpdateStats_repeated:
  "(UpdateStats t ^^ n) ms =
     ms\<lparr>m_total_requests_processed := m_total_requests_processed ms + of_nat n,
        m_total_response_time_ms := m_total_response_time_ms ms + of_nat n * of_int t\<rparr>"
proof (induction n)
  case 0
  show ?case by simp
next
  case (Suc n)
  then show ?case by (simp add: UpdateStats_def algebra_simps)
qed

lemma wrapped_master_reached:
  "(UpdateStats 5 ^^ 2147483648) (new_MasterServiceImpl demo_env) = wrapped_master"
  unfolding UpdateStats_repeated demo_discovery
  by (simp add: wrapped_master_def)

text \<open>
  C8, as the code has it. \<open>GetMasterStatus\<close> reports the request counter, and as average
  response time the summed response time divided by the counter whenever the counter is
  greater than 0, and 0 whenever the counter is 0 or negative.
\<close>

theorem GetMasterStatus_average:
  assumes "GetMasterStatus e ms response = (st, response', ms')"
  shows "total_requests_processed response' = sint (m_total_requests_processed ms)
         \<and> (0 < total_requests_processed response' \<longrightarrow>
               average_response_time_ms response' =
                 m_total_response_time_ms ms / of_int (total_requests_processed response'))
         \<and> (total_requests_processed response' \<le> 0 \<longrightarrow> average_response_time_ms response' = 0)"
  using assms
  by (auto simp: GetMasterStatus_def Let_def split: prod.splits)

theorem GetMasterStatus_average_witness:
  "total_requests_processed (fst (snd (GetMasterStatus demo_env demo_master empty_master_status))) = 3
   \<and> average_response_time_ms (fst (snd (GetMasterStatus demo_env demo_master empty_master_status))) = 10
   \<and> total_requests_processed
        (fst (snd (GetMasterStatus demo_env (new_MasterServiceImpl demo_env) empty_master_status))) = 0
   \<and> average_response_time_ms
        (fst (snd (GetMasterStatus demo_env (new_MasterServiceImpl demo_env) empty_master_status))) = 0"
proof -
  have a: "GetMasterStatus demo_env demo_master empty_master_status =
      (fst (GetMasterStatus demo_env demo_master empty_master_status),
       fst (snd (GetMasterStatus demo_env demo_master empty_master_status)),
       snd (snd (GetMasterStatus demo_env demo_master empty_master_status)))" by simp
  have b: "GetMasterStatus demo_env (new_MasterServiceImpl demo_env) empty_master_status =
      (fst (GetMasterStatus demo_env (new_MasterServiceImpl demo_env) empty_master_status),
       fst (snd (GetMasterStatus demo_env (new_MasterServiceImpl demo_env) empty_master_status)),
       snd (snd (GetMasterStatus demo_env (new_MasterServiceImpl demo_env) empty_master_status)))"
    by simp
  have c: "sint (m_total_requests_processed demo_master) = 3"
    "m_total_response_time_ms demo_master = 30"
    "sint (m_total_requests_processed (new_MasterServiceImpl demo_env)) = 0"
    by (simp_all add: demo_master_def new_MasterServiceImpl_def)
  from GetMasterStatus_average[OF a] GetMasterStatus_average[OF b] c
  show ?thesis by simp
qed

text \<open>
  C8, as the claim states it, fails after \<open>2^31\<close> requests of 5 milliseconds each: the
  counter reported is \<open>-2147483648\<close>, the summed response time divided by it is \<open>-5\<close>,
  and the average reported is 0.
\<close>

theorem GetMasterStatus_average_after_wrap:
  "total_requests_processed
     (fst (snd (GetMasterStatus demo_env wrapped_master empty_master_status))) = - 2147483648
   \<and> average_response_time_ms
       (fst (snd (GetMasterStatus demo_env wrapped_master empty_master_status))) = 0
   \<and> m_total_response_time_ms wrapped_master
       / of_int (sint (m_total_requests_processed wrapped_master)) = - 5"
  by (simp add: GetMasterStatus_def Let_def wrapped_master_def GetWorkerInfo_def
        GetActiveWorkers_def GetTotalWorkers_def RefreshWorkers_def ShouldRefreshWorkers_def
        new_WorkerPool_def demo_env_def to_seconds_def c_div_def signed_divide_int_def)

end
